theory Spec2Isabelle
  imports Main
begin

section \<open>OCR-to-Markdown server: the \<open>POST /api/ocr\<close> handler\<close>

text \<open>
  The repository holds two variants of one Express handler. \<open>src/server.js\<close> sends the
  image inline to the chat-completions API; \<open>src/unnamed/part_000\<close> stages the image in
  a temporary file and calls the \<open>llama-ocr\<close> library. Both are embedded below as
  functions that pass an explicit state (the object store, the temporary files, the
  trace of external calls) and read the behaviour of the external services from a
  record of test doubles. Console output is not modelled.
\<close>

subsection \<open>JavaScript values the handler touches\<close>

text \<open>A thrown value; \<open>error.message\<close> may be missing or empty.\<close>

datatype js_error = Error (error_message: "string option")

text \<open>Truthiness of an optional string: \<open>undefined\<close> and \<open>''\<close> are falsy.\<close>

fun truthy :: "string option \<Rightarrow> bool" where
  "truthy None = False"
| "truthy (Some s) = (s \<noteq> [])"

text \<open>\<open>a || b\<close> on an optional string with a string default.\<close>

fun or_else :: "string option \<Rightarrow> string \<Rightarrow> string" where
  "or_else None d = d"
| "or_else (Some s) d = (if s = [] then d else s)"

subsection \<open>Numbers as text\<close>

definition digit_char :: "nat \<Rightarrow> char" where
  "digit_char d = ''0123456789'' ! d"

text \<open>The decimal digits of a natural number, most significant first.\<close>

fun digits :: "nat \<Rightarrow> string" where
  "digits n = (if n < 10 then [digit_char n] else digits (n div 10) @ [digit_char (n mod 10)])"

declare digits.simps [simp del]

text \<open>\<open>String(n)\<close> for an integer \<open>n\<close>, as a template literal renders \<open>Date.now()\<close>.\<close>

definition show_int :: "int \<Rightarrow> string" where
  "show_int i = (if i < 0 then CHR ''-'' # digits (nat (- i)) else digits (nat i))"

subsection \<open>The elapsed time: \<open>((end - start) / 1000).toFixed(2)\<close>\<close>

text \<open>
  The quotient is an IEEE double. For a positive integer \<open>a\<close> below \<open>2 ^ 53\<close> the
  double nearest to \<open>a / 1000\<close> is \<open>m / 2 ^ k\<close>, where \<open>k\<close> is the scale at which
  \<open>a * 2 ^ k / 1000\<close> has 53 significant bits and \<open>m\<close> is that quotient rounded to
  the nearest integer, ties to even. Clock readings are integers of magnitude at most
  \<open>8.64e15\<close>, so the difference of two non-negative readings is exact and below
  \<open>2 ^ 53\<close>; the model is exact on that range.
\<close>

definition round_half_even :: "nat \<Rightarrow> nat \<Rightarrow> nat" where
  "round_half_even p q =
     (let d = p div q; r = p mod q
      in if 2 * r < q then d else if q < 2 * r then d + 1 else if even d then d else d + 1)"

definition double_scale :: "nat \<Rightarrow> nat" where
  "double_scale a =
     (case find (\<lambda>k. 1000 * 2 ^ 52 \<le> a * 2 ^ k) [0..<63] of Some k \<Rightarrow> k | None \<Rightarrow> 0)"

definition double_mantissa :: "nat \<Rightarrow> nat" where
  "double_mantissa a = round_half_even (a * 2 ^ double_scale a) 1000"

text \<open>
  \<open>toFixed(2)\<close> takes the integer \<open>n\<close> for which \<open>n / 100 - x\<close> is closest to zero,
  the larger one on a tie: \<open>n = \<lfloor>100 * x + 1/2\<rfloor>\<close> with \<open>x = m / 2 ^ k\<close>.
\<close>

definition hundredths :: "nat \<Rightarrow> nat" where
  "hundredths a =
     (let k = double_scale a; m = double_mantissa a
      in (200 * m + 2 ^ k) div 2 ^ (k + 1))"

text \<open>
  The digits of \<open>n\<close>, padded on the left with zeros to three characters, with the
  point before the last two; a negative number gets a leading minus sign.
\<close>

definition fixed2 :: "nat \<Rightarrow> string" where
  "fixed2 n =
     (let m = digits n;
          m' = (if length m \<le> 2 then replicate (3 - length m) CHR ''0'' @ m else m)
      in take (length m' - 2) m' @ ''.'' @ drop (length m' - 2) m')"

definition toFixed2_div1000 :: "int \<Rightarrow> string" where
  "toFixed2_div1000 ms =
     (if ms < 0 then CHR ''-'' # fixed2 (hundredths (nat (- ms)))
      else fixed2 (hundredths (nat ms)))"

subsection \<open>The storage key of the markdown: \<open>s3Key.replace(/\.[^.]+$/, '.md')\<close>\<close>

text \<open>
  The regular expression is tried at each position from the left. It matches at a
  full stop that is followed by at least one character, none of them a full stop, up
  to the end of the string; the match is replaced by \<open>.md\<close>. Without a match the
  string is returned as it is.
\<close>

fun replace_ext :: "string \<Rightarrow> string" where
  "replace_ext [] = []"
| "replace_ext (c # cs) =
     (if c = CHR ''.'' \<and> cs \<noteq> [] \<and> CHR ''.'' \<notin> set cs then ''.md''
      else c # replace_ext cs)"

subsection \<open>Requests, configuration and responses\<close>

text \<open>\<open>req.file\<close> as multer leaves it: absent, or the uploaded file held in memory.\<close>

record multer_file =
  originalname :: string
  mimetype :: string
  buffer :: string

record request =
  req_file :: "multer_file option"

record process_env =
  TOGETHER_API_KEY :: "string option"
  BUCKET_NAME :: "string option"

record ocr_data =
  inputFile :: string
  outputFile :: string
  markdown :: string
  bucket :: string
  processingTime :: string

text \<open>
  The JSON body: \<open>{success: true, message, data}\<close> or \<open>{success: false, error}\<close>.
\<close>

datatype envelope = Success string ocr_data | Failure string

record response =
  status :: nat
  body :: envelope

subsection \<open>External services\<close>

record put_object_command =
  Bucket :: string
  Key :: string
  Body :: string
  ContentType :: string

text \<open>
  The argument of \<open>together.chat.completions.create\<close>. The image travels as the data
  URL \<open>data:<mimetype>;base64,<buffer in base64>\<close>, kept here as its two inputs. The
  sampling temperature, the constant 0.1, is left out.
\<close>

record chat_request =
  model :: string
  prompt :: string
  image_mimetype :: string
  image_buffer :: string
  max_tokens :: nat

datatype chat_message = Message (content: "string option")

datatype choice = Choice (message: "chat_message option")

datatype completion = Completion (choices: "choice list")

text \<open>What \<open>ocr\<close> of \<open>llama-ocr\<close> may resolve to.\<close>

datatype js_value = JUndefined | JNull | JString string

text \<open>
  One entry per clock reading and per call of an external service, in the order they
  are made; the flag says whether the call resolved (\<open>True\<close>) or threw.
\<close>

datatype event =
    DateNow int
  | S3Send put_object_command bool
  | TogetherCreate chat_request bool
  | FsWriteFile string string bool
  | LlamaOcr string string bool
  | FsUnlink string bool

text \<open>
  The behaviour of the outside world during one request: the \<open>n\<close>-th reading of
  \<open>Date.now()\<close>, the outcome of the \<open>n\<close>-th \<open>s3Client.send\<close>, and the outcomes of the
  inference and file-system calls. \<open>None\<close> is a call that resolves.
\<close>

record doubles =
  now :: "nat \<Rightarrow> int"
  s3_send :: "nat \<Rightarrow> put_object_command \<Rightarrow> js_error option"
  together_create :: "chat_request \<Rightarrow> js_error + completion"
  fs_writeFile :: "string \<Rightarrow> string \<Rightarrow> js_error option"
  llama_ocr :: "string \<Rightarrow> string \<Rightarrow> js_error + js_value"
  fs_unlink :: "string \<Rightarrow> js_error option"

text \<open>
  What a request can change: the objects of the store (bucket and key to body and
  content type), the files under \<open>/tmp\<close>, and the trace. A \<open>send\<close> that throws stores
  nothing; a \<open>writeFile\<close> that throws creates nothing; an \<open>unlink\<close> that throws
  removes nothing.
\<close>

record sys =
  clock_reads :: nat
  s3_sends :: nat
  objects :: "string \<times> string \<rightharpoonup> string \<times> string"
  files :: "string \<rightharpoonup> string"
  trace :: "event list"

definition date_now :: "doubles \<Rightarrow> sys \<Rightarrow> int \<times> sys" where
  "date_now w s =
     (now w (clock_reads s),
      s\<lparr>clock_reads := clock_reads s + 1, trace := trace s @ [DateNow (now w (clock_reads s))]\<rparr>)"

definition uploadToS3 ::
  "doubles \<Rightarrow> string \<Rightarrow> string \<Rightarrow> string \<Rightarrow> string \<Rightarrow> sys \<Rightarrow> js_error option \<times> sys" where
  "uploadToS3 w bucket' key content' contentType s =
     (let command = \<lparr>Bucket = bucket', Key = key, Body = content', ContentType = contentType\<rparr>
      in case s3_send w (s3_sends s) command of
           None \<Rightarrow>
             (None, s\<lparr>s3_sends := s3_sends s + 1,
                      objects := (objects s)((bucket', key) \<mapsto> (content', contentType)),
                      trace := trace s @ [S3Send command True]\<rparr>)
         | Some e \<Rightarrow>
             (Some e, s\<lparr>s3_sends := s3_sends s + 1,
                        trace := trace s @ [S3Send command False]\<rparr>))"

subsection \<open>\<open>src/server.js\<close>: the inline variant\<close>

definition json :: "nat \<Rightarrow> envelope \<Rightarrow> response" where
  "json code env = \<lparr>status = code, body = env\<rparr>"

definition ocr_prompt :: string where
  "ocr_prompt = ''Extract all text from this image and format it as clean markdown. Include headings, lists, tables, and any structure visible in the image. Only return the markdown content, no explanations.''"

definition create_chat :: "doubles \<Rightarrow> chat_request \<Rightarrow> sys \<Rightarrow> (js_error + completion) \<times> sys" where
  "create_chat w r s =
     (case together_create w r of
        Inl e \<Rightarrow> (Inl e, s\<lparr>trace := trace s @ [TogetherCreate r False]\<rparr>)
      | Inr c \<Rightarrow> (Inr c, s\<lparr>trace := trace s @ [TogetherCreate r True]\<rparr>))"

text \<open>\<open>response.choices[0]?.message?.content\<close>\<close>

definition first_content :: "completion \<Rightarrow> string option" where
  "first_content r =
     (case choices r of
        [] \<Rightarrow> None
      | c # _ \<Rightarrow> (case message c of None \<Rightarrow> None | Some m \<Rightarrow> content m))"

text \<open>
  The body of the \<open>try\<close> block: \<open>Inl\<close> is an exception on its way to the \<open>catch\<close>,
  \<open>Inr\<close> the response sent.
\<close>

definition try_block ::
  "doubles \<Rightarrow> process_env \<Rightarrow> request \<Rightarrow> sys \<Rightarrow> (js_error + response) \<times> sys" where
  "try_block w env req s =
     (case req_file req of
        None \<Rightarrow>
          (Inr (json 400 (Failure ''No image file provided. Please upload an image.'')), s)
      | Some f \<Rightarrow>
          if \<not> truthy (TOGETHER_API_KEY env) then
            (Inr (json 500 (Failure ''Server configuration error: TOGETHER_API_KEY not set'')), s)
          else if \<not> truthy (BUCKET_NAME env) then
            (Inr (json 500 (Failure ''Server configuration error: BUCKET_NAME not set'')), s)
          else
            let bucketName = the (BUCKET_NAME env);
                (timestamp, s1) = date_now w s;
                s3Key = ''uploads/'' @ show_int timestamp @ ''-'' @ originalname f
            in case uploadToS3 w bucketName s3Key (buffer f) (mimetype f) s1 of
                 (Some e, s2) \<Rightarrow> (Inl e, s2)
               | (None, s2) \<Rightarrow>
                   let (startTime, s3) = date_now w s2
                   in case create_chat w
                          \<lparr>model = ''meta-llama/Llama-4-Maverick-17B-128E-Instruct-FP8'',
                           prompt = ocr_prompt,
                           image_mimetype = mimetype f,
                           image_buffer = buffer f,
                           max_tokens = 4096\<rparr> s3 of
                        (Inl e, s4) \<Rightarrow> (Inl e, s4)
                      | (Inr response, s4) \<Rightarrow>
                          let markdown' = or_else (first_content response) ''No text extracted'';
                              (endTime, s5) = date_now w s4;
                              processingTime' = toFixed2_div1000 (endTime - startTime);
                              mdKey = replace_ext s3Key
                          in case uploadToS3 w bucketName mdKey markdown' ''text/markdown'' s5 of
                               (Some e, s6) \<Rightarrow> (Inl e, s6)
                             | (None, s6) \<Rightarrow>
                                 (Inr (json 200
                                    (Success ''OCR processing completed successfully''
                                       \<lparr>inputFile = s3Key,
                                        outputFile = mdKey,
                                        markdown = markdown',
                                        bucket = bucketName,
                                        processingTime = processingTime' @ ''s''\<rparr>)), s6))"

text \<open>The \<open>catch\<close>: status 500 with \<open>error.message || 'Failed to process image'\<close>.\<close>

definition catch_block :: "js_error \<Rightarrow> response" where
  "catch_block e = json 500 (Failure (or_else (error_message e) ''Failed to process image''))"

definition post_api_ocr :: "doubles \<Rightarrow> process_env \<Rightarrow> request \<Rightarrow> sys \<Rightarrow> response \<times> sys" where
  "post_api_ocr w env req s =
     (case try_block w env req s of
        (Inl e, s') \<Rightarrow> (catch_block e, s')
      | (Inr r, s') \<Rightarrow> (r, s'))"

text \<open>The state a request starts from: nothing read, nothing sent, an empty trace.\<close>

definition fresh :: "(string \<times> string \<rightharpoonup> string \<times> string) \<Rightarrow> (string \<rightharpoonup> string) \<Rightarrow> sys" where
  "fresh store tmp = \<lparr>clock_reads = 0, s3_sends = 0, objects = store, files = tmp, trace = []\<rparr>"

subsection \<open>\<open>src/unnamed/part_000\<close>: the temp-file variant\<close>

text \<open>
  \<open>uploadToS3\<close> and the \<open>catch\<close> are the same text in both files. Here the image is
  first written to \<open>/tmp\<close>, \<open>ocr\<close> of \<open>llama-ocr\<close> reads it from there, and its result
  is used as it comes: \<open>markdown.length\<close>, in the log line after the call, throws a
  \<open>TypeError\<close> when the result is \<open>undefined\<close> or \<open>null\<close>.
\<close>

definition writeFile :: "doubles \<Rightarrow> string \<Rightarrow> string \<Rightarrow> sys \<Rightarrow> js_error option \<times> sys" where
  "writeFile w path data s =
     (case fs_writeFile w path data of
        None \<Rightarrow>
          (None, s\<lparr>files := (files s)(path \<mapsto> data),
                   trace := trace s @ [FsWriteFile path data True]\<rparr>)
      | Some e \<Rightarrow> (Some e, s\<lparr>trace := trace s @ [FsWriteFile path data False]\<rparr>))"

definition ocr :: "doubles \<Rightarrow> string \<Rightarrow> string \<Rightarrow> sys \<Rightarrow> (js_error + js_value) \<times> sys" where
  "ocr w filePath apiKey s =
     (case llama_ocr w filePath apiKey of
        Inl e \<Rightarrow> (Inl e, s\<lparr>trace := trace s @ [LlamaOcr filePath apiKey False]\<rparr>)
      | Inr v \<Rightarrow> (Inr v, s\<lparr>trace := trace s @ [LlamaOcr filePath apiKey True]\<rparr>))"

text \<open>\<open>fs.unlink(tempPath).catch(() => {})\<close>: the rejection is dropped.\<close>

definition unlink_quietly :: "doubles \<Rightarrow> string \<Rightarrow> sys \<Rightarrow> sys" where
  "unlink_quietly w path s =
     (case fs_unlink w path of
        None \<Rightarrow> s\<lparr>files := (files s)(path := None), trace := trace s @ [FsUnlink path True]\<rparr>
      | Some e \<Rightarrow> s\<lparr>trace := trace s @ [FsUnlink path False]\<rparr>)"

text \<open>\<open>markdown.length\<close>: the string, or the \<open>TypeError\<close> of V8.\<close>

fun length_of :: "js_value \<Rightarrow> js_error + string" where
  "length_of (JString t) = Inr t"
| "length_of JUndefined =
     Inl (Error (Some ''Cannot read properties of undefined (reading 'length')''))"
| "length_of JNull =
     Inl (Error (Some ''Cannot read properties of null (reading 'length')''))"

definition try_block_tmp ::
  "doubles \<Rightarrow> process_env \<Rightarrow> request \<Rightarrow> sys \<Rightarrow> (js_error + response) \<times> sys" where
  "try_block_tmp w env req s =
     (case req_file req of
        None \<Rightarrow>
          (Inr (json 400 (Failure ''No image file provided. Please upload an image.'')), s)
      | Some f \<Rightarrow>
          if \<not> truthy (TOGETHER_API_KEY env) then
            (Inr (json 500 (Failure ''Server configuration error: TOGETHER_API_KEY not set'')), s)
          else if \<not> truthy (BUCKET_NAME env) then
            (Inr (json 500 (Failure ''Server configuration error: BUCKET_NAME not set'')), s)
          else
            let apiKey = the (TOGETHER_API_KEY env);
                bucketName = the (BUCKET_NAME env);
                (timestamp, s1) = date_now w s;
                tempPath = ''/tmp/'' @ show_int timestamp @ ''-'' @ originalname f
            in case writeFile w tempPath (buffer f) s1 of
                 (Some e, s2) \<Rightarrow> (Inl e, s2)
               | (None, s2) \<Rightarrow>
                   let s3Key = ''uploads/'' @ show_int timestamp @ ''-'' @ originalname f
                   in case uploadToS3 w bucketName s3Key (buffer f) (mimetype f) s2 of
                        (Some e, s3) \<Rightarrow> (Inl e, s3)
                      | (None, s3) \<Rightarrow>
                          let (startTime, s4) = date_now w s3
                          in case ocr w tempPath apiKey s4 of
                               (Inl e, s5) \<Rightarrow> (Inl e, s5)
                             | (Inr v, s5) \<Rightarrow>
                                 let (endTime, s6) = date_now w s5;
                                     processingTime' = toFixed2_div1000 (endTime - startTime)
                                 in case length_of v of
                                      Inl e \<Rightarrow> (Inl e, s6)
                                    | Inr markdown' \<Rightarrow>
                                        let mdKey = replace_ext s3Key
                                        in case uploadToS3 w bucketName mdKey markdown'
                                                  ''text/markdown'' s6 of
                                             (Some e, s7) \<Rightarrow> (Inl e, s7)
                                           | (None, s7) \<Rightarrow>
                                               let s8 = unlink_quietly w tempPath s7
                                               in (Inr (json 200
                                                    (Success ''OCR processing completed successfully''
                                                       \<lparr>inputFile = s3Key,
                                                        outputFile = mdKey,
                                                        markdown = markdown',
                                                        bucket = bucketName,
                                                        processingTime = processingTime' @ ''s''\<rparr>)),
                                                   s8))"

definition post_api_ocr_tmp ::
  "doubles \<Rightarrow> process_env \<Rightarrow> request \<Rightarrow> sys \<Rightarrow> response \<times> sys" where
  "post_api_ocr_tmp w env req s =
     (case try_block_tmp w env req s of
        (Inl e, s') \<Rightarrow> (catch_block e, s')
      | (Inr r, s') \<Rightarrow> (r, s'))"

subsection \<open>What the handler sends\<close>

text \<open>
  The arguments of the external calls, as the handler computes them from the first
  clock reading and the uploaded file.
\<close>

definition s3_key :: "doubles \<Rightarrow> multer_file \<Rightarrow> string" where
  "s3_key w f = ''uploads/'' @ show_int (now w 0) @ ''-'' @ originalname f"

definition temp_path :: "doubles \<Rightarrow> multer_file \<Rightarrow> string" where
  "temp_path w f = ''/tmp/'' @ show_int (now w 0) @ ''-'' @ originalname f"

definition image_put :: "doubles \<Rightarrow> process_env \<Rightarrow> multer_file \<Rightarrow> put_object_command" where
  "image_put w env f =
     \<lparr>Bucket = the (BUCKET_NAME env), Key = s3_key w f, Body = buffer f,
      ContentType = mimetype f\<rparr>"

definition markdown_put ::
  "doubles \<Rightarrow> process_env \<Rightarrow> multer_file \<Rightarrow> string \<Rightarrow> put_object_command" where
  "markdown_put w env f text =
     \<lparr>Bucket = the (BUCKET_NAME env), Key = replace_ext (s3_key w f), Body = text,
      ContentType = ''text/markdown''\<rparr>"

definition chat_of :: "multer_file \<Rightarrow> chat_request" where
  "chat_of f =
     \<lparr>model = ''meta-llama/Llama-4-Maverick-17B-128E-Instruct-FP8'',
      prompt = ocr_prompt,
      image_mimetype = mimetype f,
      image_buffer = buffer f,
      max_tokens = 4096\<rparr>"

subsection \<open>Reading a trace\<close>

text \<open>The calls of \<open>s3Client.send\<close> in order, each with its outcome.\<close>

fun sends :: "event list \<Rightarrow> (put_object_command \<times> bool) list" where
  "sends [] = []"
| "sends (S3Send c ok # es) = (c, ok) # sends es"
| "sends (DateNow t # es) = sends es"
| "sends (TogetherCreate r ok # es) = sends es"
| "sends (FsWriteFile p d ok # es) = sends es"
| "sends (LlamaOcr p k ok # es) = sends es"
| "sends (FsUnlink p ok # es) = sends es"

text \<open>The store after a sequence of puts: the accepted ones are written, in order.\<close>

fun stored_after ::
  "(put_object_command \<times> bool) list \<Rightarrow> (string \<times> string \<rightharpoonup> string \<times> string) \<Rightarrow>
   (string \<times> string \<rightharpoonup> string \<times> string)" where
  "stored_after [] m = m"
| "stored_after ((c, ok) # ps) m =
     stored_after ps (if ok then m((Bucket c, Key c) \<mapsto> (Body c, ContentType c)) else m)"

text \<open>The outcomes of the inference calls in order.\<close>

fun inferences :: "event list \<Rightarrow> bool list" where
  "inferences [] = []"
| "inferences (DateNow t # es) = inferences es"
| "inferences (S3Send c ok # es) = inferences es"
| "inferences (TogetherCreate r ok # es) = ok # inferences es"
| "inferences (FsWriteFile p d ok # es) = inferences es"
| "inferences (LlamaOcr p k ok # es) = ok # inferences es"
| "inferences (FsUnlink p ok # es) = inferences es"

text \<open>
  A second \<open>send\<close> was made and the store accepted it. What the second send carries
  is not part of this reading: the theorems that use it state the command beside it.
\<close>

definition markdown_stored :: "event list \<Rightarrow> bool" where
  "markdown_stored tr = (1 < length (sends tr) \<and> snd (sends tr ! 1))"

definition inference_succeeded :: "event list \<Rightarrow> bool" where
  "inference_succeeded tr = (True \<in> set (inferences tr))"

definition inference_threw :: "event list \<Rightarrow> bool" where
  "inference_threw tr = (False \<in> set (inferences tr))"

definition validation_passed :: "process_env \<Rightarrow> request \<Rightarrow> bool" where
  "validation_passed env req =
     (req_file req \<noteq> None \<and> truthy (TOGETHER_API_KEY env) \<and> truthy (BUCKET_NAME env))"

definition is_failure :: "response \<Rightarrow> bool" where
  "is_failure r = (case body r of Failure m \<Rightarrow> True | Success m d \<Rightarrow> False)"

definition response_data :: "response \<Rightarrow> ocr_data option" where
  "response_data r = (case body r of Failure m \<Rightarrow> None | Success m d \<Rightarrow> Some d)"

text \<open>
  The calls to the object store and to the inference service are the pipeline of a
  request; reading the clock, staging and removing the temporary file are not part of
  it.
\<close>

fun pipeline :: "event list \<Rightarrow> event list" where
  "pipeline [] = []"
| "pipeline (DateNow t # es) = pipeline es"
| "pipeline (FsWriteFile p d ok # es) = pipeline es"
| "pipeline (FsUnlink p ok # es) = pipeline es"
| "pipeline (e # es) = e # pipeline es"

fun resolved :: "event \<Rightarrow> bool" where
  "resolved (DateNow t) = True"
| "resolved (S3Send c ok) = ok"
| "resolved (TogetherCreate r ok) = ok"
| "resolved (FsWriteFile p d ok) = ok"
| "resolved (LlamaOcr p k ok) = ok"
| "resolved (FsUnlink p ok) = ok"

text \<open>The call of an event, with the outcome set to resolved.\<close>

fun resolve :: "event \<Rightarrow> event" where
  "resolve (DateNow t) = DateNow t"
| "resolve (S3Send c ok) = S3Send c True"
| "resolve (TogetherCreate r ok) = TogetherCreate r True"
| "resolve (FsWriteFile p d ok) = FsWriteFile p d True"
| "resolve (LlamaOcr p k ok) = LlamaOcr p k True"
| "resolve (FsUnlink p ok) = FsUnlink p True"

text \<open>\<open>xs\<close> is an initial segment of \<open>ys\<close>.\<close>

fun initial_segment :: "'a list \<Rightarrow> 'a list \<Rightarrow> bool" where
  "initial_segment [] ys = True"
| "initial_segment (x # xs) [] = False"
| "initial_segment (x # xs) (y # ys) = (x = y \<and> initial_segment xs ys)"

subsection \<open>The three stages and what each call carries\<close>

text \<open>
  The markdown a request would upload: in \<open>src/server.js\<close> the text of the first choice
  or the placeholder, in the temp-file variant the string \<open>ocr\<close> resolved to. It is
  only sent when the inference call returned (and, in the temp-file variant, returned a
  string).
\<close>

definition inline_markdown :: "doubles \<Rightarrow> multer_file \<Rightarrow> string" where
  "inline_markdown w f =
     (case together_create w (chat_of f) of
        Inl e \<Rightarrow> []
      | Inr c \<Rightarrow> or_else (first_content c) ''No text extracted'')"

definition staged_markdown :: "doubles \<Rightarrow> process_env \<Rightarrow> multer_file \<Rightarrow> string" where
  "staged_markdown w env f =
     (case llama_ocr w (temp_path w f) (the (TOGETHER_API_KEY env)) of
        Inr (JString t) \<Rightarrow> t
      | _ \<Rightarrow> [])"

text \<open>
  The pipeline of a request in which every call resolves: the image upload, the
  inference call, the markdown upload, each with the arguments it carries.
\<close>

definition inline_pipeline :: "doubles \<Rightarrow> process_env \<Rightarrow> multer_file \<Rightarrow> event list" where
  "inline_pipeline w env f =
     [S3Send (image_put w env f) True,
      TogetherCreate (chat_of f) True,
      S3Send (markdown_put w env f (inline_markdown w f)) True]"

definition staged_pipeline :: "doubles \<Rightarrow> process_env \<Rightarrow> multer_file \<Rightarrow> event list" where
  "staged_pipeline w env f =
     [S3Send (image_put w env f) True,
      LlamaOcr (temp_path w f) (the (TOGETHER_API_KEY env)) True,
      S3Send (markdown_put w env f (staged_markdown w env f)) True]"

subsection \<open>The markdown key in the words of the specification\<close>

text \<open>
  The final extension of a key: the characters after its last full stop, when there
  is a full stop and at least one character follows it.
\<close>

definition final_extension :: "string \<Rightarrow> string option" where
  "final_extension k =
     (let ext = rev (takeWhile (\<lambda>c. c \<noteq> CHR ''.'') (rev k))
      in if CHR ''.'' \<in> set k \<and> ext \<noteq> [] then Some ext else None)"

text \<open>
  The key with its final extension replaced by \<open>.md\<close>; a key without one has nothing
  to replace.
\<close>

definition spec_md_key :: "string \<Rightarrow> string" where
  "spec_md_key k =
     (case final_extension k of
        None \<Rightarrow> k
      | Some ext \<Rightarrow> take (length k - (length ext + 1)) k @ ''.md'')"

subsection \<open>Sample requests and worlds\<close>

definition a_png :: multer_file where
  "a_png = \<lparr>originalname = ''a.png'', mimetype = ''image/png'', buffer = ''abc''\<rparr>"

definition readme :: multer_file where
  "readme = \<lparr>originalname = ''README'', mimetype = ''image/png'', buffer = ''abc''\<rparr>"

definition configured :: process_env where
  "configured = \<lparr>TOGETHER_API_KEY = Some ''key'', BUCKET_NAME = Some ''bucket''\<rparr>"

text \<open>Every call resolves; the clock reads 1700, 5000, 7000; the text is \<open># Title\<close>.\<close>

definition calm :: doubles where
  "calm =
     \<lparr>now = (\<lambda>n. if n = 0 then 1700 else if n = 1 then 5000 else 7000),
      s3_send = (\<lambda>n c. None),
      together_create = (\<lambda>r. Inr (Completion [Choice (Some (Message (Some ''# Title'')))])),
      fs_writeFile = (\<lambda>p d. None),
      llama_ocr = (\<lambda>p k. Inr (JString ''# Title'')),
      fs_unlink = (\<lambda>p. None)\<rparr>"

text \<open>The inference service returns the empty string as its text.\<close>

definition empty_text :: doubles where
  "empty_text =
     calm\<lparr>together_create := (\<lambda>r. Inr (Completion [Choice (Some (Message (Some [])))])),
          llama_ocr := (\<lambda>p k. Inr (JString []))\<rparr>"

text \<open>The inference call throws.\<close>

definition rate_limited :: doubles where
  "rate_limited =
     calm\<lparr>together_create := (\<lambda>r. Inl (Error (Some ''RateLimited''))),
          llama_ocr := (\<lambda>p k. Inl (Error (Some ''RateLimited'')))\<rparr>"

text \<open>The second put, the markdown, is refused by the store.\<close>

definition md_put_fails :: doubles where
  "md_put_fails =
     calm\<lparr>s3_send := (\<lambda>n c. if n = 1 then Some (Error (Some ''SlowDown'')) else None)\<rparr>"

text \<open>Removing the temporary file fails.\<close>

definition unlink_fails :: doubles where
  "unlink_fails = calm\<lparr>fs_unlink := (\<lambda>p. Some (Error (Some ''EPERM'')))\<rparr>"

definition upload :: "multer_file \<Rightarrow> request" where
  "upload f = \<lparr>req_file = Some f\<rparr>"

definition idle :: sys where
  "idle = fresh Map.empty Map.empty"

text \<open>The clock reads 0 just before the inference call and 2000 just after it.\<close>

definition epoch_clock :: doubles where
  "epoch_clock = calm\<lparr>now := (\<lambda>n. if n = 0 then 1700 else if n = 1 then 0 else 2000)\<rparr>"

text \<open>The clock runs backwards: it reads 5000 before the inference call and 3000 after.\<close>

definition clock_back :: doubles where
  "clock_back = calm\<lparr>now := (\<lambda>n. if n = 0 then 1700 else if n = 1 then 5000 else 3000)\<rparr>"

text \<open>The store refuses every put.\<close>

definition store_down :: doubles where
  "store_down = calm\<lparr>s3_send := (\<lambda>n c. Some (Error (Some ''AccessDenied'')))\<rparr>"

text \<open>The completion has no choices, and the store refuses the markdown put.\<close>

definition no_choices_md_fails :: doubles where
  "no_choices_md_fails = md_put_fails\<lparr>together_create := (\<lambda>r. Inr (Completion []))\<rparr>"

subsection \<open>The same inference behaviour in both variants\<close>

text \<open>
  The two variants reach the model through different clients. Their doubles behave
  alike for a file when both throw the same error, or when the text of the first choice
  of the completion is a non-empty string and \<open>ocr\<close> resolves to that string.
\<close>

definition same_inference :: "doubles \<Rightarrow> process_env \<Rightarrow> multer_file \<Rightarrow> bool" where
  "same_inference w env f =
     (case together_create w (chat_of f) of
        Inl e \<Rightarrow> llama_ocr w (temp_path w f) (the (TOGETHER_API_KEY env)) = Inl e
      | Inr c \<Rightarrow>
          (case first_content c of
             None \<Rightarrow> False
           | Some t \<Rightarrow>
               t \<noteq> [] \<and>
               llama_ocr w (temp_path w f) (the (TOGETHER_API_KEY env)) = Inr (JString t)))"

section \<open>Properties\<close>

subsection \<open>Digits and keys\<close>

lemma digit_char_not_dot: "d < 10 \<Longrightarrow> digit_char d \<noteq> CHR ''.''"
proof -
  assume "d < 10"
  then have "d \<in> {0, 1, 2, 3, 4, 5, 6, 7, 8, 9}" by auto
  then show ?thesis by (auto simp: digit_char_def)
qed

lemma digits_no_dot: "CHR ''.'' \<notin> set (digits n)"
proof (induction n rule: digits.induct)
  case (1 n)
  show ?case
  proof (cases "n < 10")
    case True
    then show ?thesis using digit_char_not_dot [of n] by (simp add: digits.simps [of n])
  next
    case False
    have "n mod 10 < 10" by simp
    then have "digit_char (n mod 10) \<noteq> CHR ''.''" by (rule digit_char_not_dot)
    with False 1 show ?thesis by (simp add: digits.simps [of n])
  qed
qed

lemma show_int_no_dot: "CHR ''.'' \<notin> set (show_int i)"
  by (simp add: show_int_def digits_no_dot)

lemma replace_ext_no_dot: "CHR ''.'' \<notin> set k \<Longrightarrow> replace_ext k = k"
  by (induction k) auto

lemma replace_ext_last_dot:
  "CHR ''.'' \<notin> set ext \<Longrightarrow>
   replace_ext (stem @ CHR ''.'' # ext) = (if ext = [] then stem @ ''.'' else stem @ ''.md'')"
  by (induction stem) (auto simp: replace_ext_no_dot)

lemma final_extension_last_dot:
  assumes "CHR ''.'' \<notin> set ext"
  shows "final_extension (stem @ CHR ''.'' # ext) = (if ext = [] then None else Some ext)"
proof -
  from assms have "takeWhile (\<lambda>c. c \<noteq> CHR ''.'') (rev ext) = rev ext"
    by (auto simp: takeWhile_eq_all_conv)
  then have "takeWhile (\<lambda>c. c \<noteq> CHR ''.'') (rev ext @ CHR ''.'' # rev stem) = rev ext"
    by (simp add: takeWhile_tail)
  then show ?thesis
    by (simp add: final_extension_def)
qed

lemma final_extension_no_dot: "CHR ''.'' \<notin> set k \<Longrightarrow> final_extension k = None"
  by (simp add: final_extension_def Let_def)

lemma replace_ext_spec: "replace_ext k = spec_md_key k"
proof (cases "CHR ''.'' \<in> set k")
  case False
  then show ?thesis
    by (simp add: replace_ext_no_dot spec_md_key_def final_extension_no_dot)
next
  case True
  then obtain stem ext where k: "k = stem @ CHR ''.'' # ext" and ext: "CHR ''.'' \<notin> set ext"
    by (auto dest: split_list_last)
  show ?thesis
    unfolding k spec_md_key_def
    using ext by (simp add: replace_ext_last_dot final_extension_last_dot)
qed

lemma fixed2_digits:
  "fixed2 n = digits (n div 100) @ ''.'' @ [digit_char (n div 10 mod 10), digit_char (n mod 10)]"
proof -
  consider "n < 10" | "10 \<le> n" "n < 100" | "100 \<le> n" by linarith
  then show ?thesis
  proof cases
    case 1
    then have "digits n = [digit_char n]" "n div 100 = 0" "n div 10 = 0" "n mod 10 = n"
      by (simp_all add: digits.simps [of n])
    then show ?thesis
      by (simp add: fixed2_def digits.simps [of 0] digit_char_def)
  next
    case 2
    then have a: "n div 10 < 10" "n div 100 = 0" by auto
    from 2 a have "digits n = [digit_char (n div 10), digit_char (n mod 10)]"
      by (simp add: digits.simps [of n] digits.simps [of "n div 10"])
    with a show ?thesis
      by (simp add: fixed2_def digits.simps [of 0] digit_char_def)
  next
    case 3
    then have a: "\<not> n < 10" "\<not> n div 10 < 10" by auto
    have b: "n div 10 div 10 = n div 100" by (simp add: div_mult2_eq)
    from a b have d: "digits n = digits (n div 100) @ [digit_char (n div 10 mod 10), digit_char (n mod 10)]"
      by (simp add: digits.simps [of n] digits.simps [of "n div 10"])
    have "digits (n div 100) \<noteq> []"
      by (subst digits.simps) simp
    with d show ?thesis
      by (simp add: fixed2_def Let_def)
  qed
qed

subsection \<open>Rounding to hundredths\<close>

lemma round_half_even_bounds:
  "1000 * round_half_even p 1000 \<le> p + 500 \<and> p \<le> 1000 * round_half_even p 1000 + 500"
proof -
  define d where "d = p div 1000"
  define r where "r = p mod 1000"
  have p: "p = 1000 * d + r" and r: "r < 1000" by (simp_all add: d_def r_def)
  have "round_half_even p 1000 =
          (if 2 * r < 1000 then d else if 1000 < 2 * r then d + 1 else if even d then d else d + 1)"
    by (simp add: round_half_even_def d_def r_def Let_def)
  with p r show ?thesis by (simp split: if_splits)
qed

lemma double_scale_zero: "double_scale 0 = 0"
proof -
  have "find (\<lambda>k::nat. False) [0..<63] = None" by (simp add: find_None_iff)
  then show ?thesis by (simp add: double_scale_def)
qed

lemma double_scale_normal:
  assumes "0 < a"
  shows "1000 * 2 ^ 52 \<le> a * 2 ^ double_scale a"
proof -
  have "(1000::nat) * 2 ^ 52 \<le> 1 * 2 ^ 62" by simp
  also have "\<dots> \<le> a * 2 ^ 62" using assms by (intro mult_le_mono) auto
  finally have "1000 * 2 ^ 52 \<le> a * 2 ^ 62" .
  moreover have "(62::nat) \<in> set [0..<63]" by simp
  ultimately have "find (\<lambda>k. 1000 * 2 ^ 52 \<le> a * 2 ^ k) [0..<63] \<noteq> None"
    unfolding find_None_iff by blast
  then obtain k where k: "find (\<lambda>k. 1000 * 2 ^ 52 \<le> a * 2 ^ k) [0..<63] = Some k" by auto
  then have "1000 * 2 ^ 52 \<le> a * 2 ^ k"
    unfolding find_Some_iff by auto
  with k show ?thesis by (simp add: double_scale_def)
qed

lemma double_scale_large:
  assumes "0 < a" "a < 2 ^ 53"
  shows "500 < (2::nat) ^ double_scale a"
proof -
  let ?K = "(2::nat) ^ double_scale a"
  have "1000 * 2 ^ 52 \<le> a * ?K" using assms(1) by (rule double_scale_normal)
  also have "a * ?K < 2 ^ 53 * ?K" using assms(2) by simp
  finally have "(2::nat) ^ 52 * 1000 < 2 ^ 52 * (2 * ?K)" by simp
  then have "1000 < 2 * ?K" by (simp only: mult_less_cancel1)
  then show ?thesis by simp
qed

lemma hundredths_zero: "hundredths 0 = 0"
  by (simp add: hundredths_def double_mantissa_def double_scale_zero round_half_even_def)

lemma hundredths_bounds:
  assumes "a < 2 ^ 53"
  shows "a div 10 \<le> hundredths a \<and> hundredths a \<le> a div 10 + 1 \<and>
         (a mod 10 < 5 \<longrightarrow> hundredths a = a div 10) \<and>
         (5 < a mod 10 \<longrightarrow> hundredths a = a div 10 + 1)"
proof (cases "a = 0")
  case True
  then show ?thesis by (simp add: hundredths_zero)
next
  case False
  define K where "K = (2::nat) ^ double_scale a"
  define m where "m = double_mantissa a"
  define d where "d = a div 10"
  define r where "r = a mod 10"
  define X where "X = d * K"
  define Y where "Y = r * K"
  have K: "500 < K" unfolding K_def using False assms by (intro double_scale_large) auto
  have a: "a = 10 * d + r" and r: "r < 10" by (simp_all add: d_def r_def)
  have aK: "a * K = 10 * X + Y" by (simp add: a X_def Y_def algebra_simps)
  have "1000 * m \<le> a * K + 500" and "a * K \<le> 1000 * m + 500"
    using round_half_even_bounds [of "a * K"] by (simp_all add: m_def double_mantissa_def K_def)
  then have m1: "1000 * m \<le> 10 * X + Y + 500" and m2: "10 * X + Y \<le> 1000 * m + 500"
    by (simp_all only: aK)
  have dK: "d * (2 * K) = 2 * X" "(d + 1) * (2 * K) = 2 * X + 2 * K"
    "(d + 2) * (2 * K) = 2 * X + 4 * K"
    by (simp_all add: X_def algebra_simps)
  have h: "hundredths a = (200 * m + K) div (2 * K)"
    by (simp add: hundredths_def m_def K_def Let_def mult.commute)
  have Y9: "Y \<le> 9 * K" unfolding Y_def using r by (intro mult_le_mono1) simp
  have lo: "d * (2 * K) \<le> 200 * m + K"
    unfolding dK using m2 K by linarith
  have hi: "200 * m + K < (d + 2) * (2 * K)"
    unfolding dK using m1 K Y9 by linarith
  have "d \<le> hundredths a"
    unfolding h using lo K by (simp add: less_eq_div_iff_mult_less_eq)
  moreover have "hundredths a < d + 2"
    unfolding h using hi K by (simp add: div_less_iff_less_mult)
  moreover have "hundredths a = d" if "r < 5"
  proof -
    from that have "Y \<le> 4 * K" unfolding Y_def by (intro mult_le_mono1) simp
    with m1 K have "200 * m + K < (d + 1) * (2 * K)"
      unfolding dK by linarith
    then have "hundredths a < d + 1"
      unfolding h using K by (simp add: div_less_iff_less_mult)
    with \<open>d \<le> hundredths a\<close> show ?thesis by simp
  qed
  moreover have "hundredths a = d + 1" if "5 < r"
  proof -
    from that have "6 * K \<le> Y" unfolding Y_def by (intro mult_le_mono1) simp
    with m2 K have "(d + 1) * (2 * K) \<le> 200 * m + K"
      unfolding dK by linarith
    then have "d + 1 \<le> hundredths a"
      unfolding h using K by (simp add: less_eq_div_iff_mult_less_eq)
    with \<open>hundredths a < d + 2\<close> show ?thesis by simp
  qed
  ultimately show ?thesis by (simp add: d_def r_def)
qed

lemma hundredths_mono:
  assumes "a \<le> b" "b < 2 ^ 53"
  shows "hundredths a \<le> hundredths b"
proof (cases "a div 10 = b div 10")
  case False
  with assms(1) have "a div 10 < b div 10" by (simp add: div_le_mono le_neq_implies_less)
  moreover have "hundredths a \<le> a div 10 + 1" using hundredths_bounds [of a] assms by simp
  moreover have "b div 10 \<le> hundredths b" using hundredths_bounds [of b] assms by simp
  ultimately show ?thesis by linarith
next
  case True
  have am: "a = 10 * (a div 10) + a mod 10" and bm: "b = 10 * (b div 10) + b mod 10" by simp_all
  with True assms(1) have le: "a mod 10 \<le> b mod 10" by linarith
  have A: "a < 2 ^ 53" using assms by simp
  show ?thesis
  proof (cases "5 < b mod 10")
    case True
    then have "hundredths b = b div 10 + 1" using hundredths_bounds [OF assms(2)] by simp
    moreover have "hundredths a \<le> a div 10 + 1" using hundredths_bounds [OF A] by simp
    ultimately show ?thesis using \<open>a div 10 = b div 10\<close> by simp
  next
    case False
    show ?thesis
    proof (cases "a mod 10 < 5")
      case True
      then have "hundredths a = a div 10" using hundredths_bounds [OF A] by simp
      moreover have "b div 10 \<le> hundredths b" using hundredths_bounds [OF assms(2)] by simp
      ultimately show ?thesis using \<open>a div 10 = b div 10\<close> by simp
    next
      case F2: False
      with False le have "a mod 10 = b mod 10" by simp
      with \<open>a div 10 = b div 10\<close> am bm have "a = b" by simp
      then show ?thesis by simp
    qed
  qed
qed

subsection \<open>The handlers, outcome by outcome\<close>

lemma post_api_ocr_invalid:
  "\<not> validation_passed env req \<Longrightarrow>
   is_failure (fst (post_api_ocr w env req s)) \<and> snd (post_api_ocr w env req s) = s"
  by (auto simp: validation_passed_def post_api_ocr_def try_block_def json_def is_failure_def
           split: option.splits)

lemma post_api_ocr_valid:
  assumes "req_file req = Some f" "truthy (TOGETHER_API_KEY env)" "truthy (BUCKET_NAME env)"
  shows "post_api_ocr w env req (fresh st tmp) =
    (case s3_send w 0 (image_put w env f) of
       Some e \<Rightarrow>
         (catch_block e,
          \<lparr>clock_reads = 1, s3_sends = 1, objects = st, files = tmp,
           trace = [DateNow (now w 0), S3Send (image_put w env f) False]\<rparr>)
     | None \<Rightarrow>
        (case together_create w (chat_of f) of
           Inl e \<Rightarrow>
             (catch_block e,
              \<lparr>clock_reads = 2, s3_sends = 1,
               objects = st((the (BUCKET_NAME env), s3_key w f) \<mapsto> (buffer f, mimetype f)),
               files = tmp,
               trace = [DateNow (now w 0), S3Send (image_put w env f) True,
                        DateNow (now w 1), TogetherCreate (chat_of f) False]\<rparr>)
         | Inr c \<Rightarrow>
            (case s3_send w 1
                    (markdown_put w env f (or_else (first_content c) ''No text extracted'')) of
               Some e \<Rightarrow>
                 (catch_block e,
                  \<lparr>clock_reads = 3, s3_sends = 2,
                   objects = st((the (BUCKET_NAME env), s3_key w f) \<mapsto> (buffer f, mimetype f)),
                   files = tmp,
                   trace = [DateNow (now w 0), S3Send (image_put w env f) True,
                            DateNow (now w 1), TogetherCreate (chat_of f) True,
                            DateNow (now w 2),
                            S3Send (markdown_put w env f
                                      (or_else (first_content c) ''No text extracted'')) False]\<rparr>)
             | None \<Rightarrow>
                 (json 200 (Success ''OCR processing completed successfully''
                    \<lparr>inputFile = s3_key w f,
                     outputFile = replace_ext (s3_key w f),
                     markdown = or_else (first_content c) ''No text extracted'',
                     bucket = the (BUCKET_NAME env),
                     processingTime = toFixed2_div1000 (now w 2 - now w 1) @ ''s''\<rparr>),
                  \<lparr>clock_reads = 3, s3_sends = 2,
                   objects = st((the (BUCKET_NAME env), s3_key w f) \<mapsto> (buffer f, mimetype f),
                                (the (BUCKET_NAME env), replace_ext (s3_key w f)) \<mapsto>
                                  (or_else (first_content c) ''No text extracted'',
                                   ''text/markdown'')),
                   files = tmp,
                   trace = [DateNow (now w 0), S3Send (image_put w env f) True,
                            DateNow (now w 1), TogetherCreate (chat_of f) True,
                            DateNow (now w 2),
                            S3Send (markdown_put w env f
                                      (or_else (first_content c) ''No text extracted'')) True]\<rparr>))))"
  using assms
  by (simp add: post_api_ocr_def try_block_def uploadToS3_def date_now_def create_chat_def
      fresh_def s3_key_def image_put_def markdown_put_def chat_of_def Let_def numeral_2_eq_2
      split: option.splits sum.splits)

lemma post_api_ocr_tmp_invalid:
  "\<not> validation_passed env req \<Longrightarrow>
   is_failure (fst (post_api_ocr_tmp w env req s)) \<and> snd (post_api_ocr_tmp w env req s) = s"
  by (auto simp: validation_passed_def post_api_ocr_tmp_def try_block_tmp_def json_def
           is_failure_def split: option.splits)

lemma post_api_ocr_tmp_valid:
  assumes "req_file req = Some f" "truthy (TOGETHER_API_KEY env)" "truthy (BUCKET_NAME env)"
  shows "post_api_ocr_tmp w env req (fresh st tmp) =
    (case fs_writeFile w (temp_path w f) (buffer f) of
       Some e \<Rightarrow>
         (catch_block e,
          \<lparr>clock_reads = 1, s3_sends = 0, objects = st, files = tmp,
           trace = [DateNow (now w 0), FsWriteFile (temp_path w f) (buffer f) False]\<rparr>)
     | None \<Rightarrow>
    (case s3_send w 0 (image_put w env f) of
       Some e \<Rightarrow>
         (catch_block e,
          \<lparr>clock_reads = 1, s3_sends = 1, objects = st,
           files = tmp(temp_path w f \<mapsto> buffer f),
           trace = [DateNow (now w 0), FsWriteFile (temp_path w f) (buffer f) True,
                    S3Send (image_put w env f) False]\<rparr>)
     | None \<Rightarrow>
        (case llama_ocr w (temp_path w f) (the (TOGETHER_API_KEY env)) of
           Inl e \<Rightarrow>
             (catch_block e,
              \<lparr>clock_reads = 2, s3_sends = 1,
               objects = st((the (BUCKET_NAME env), s3_key w f) \<mapsto> (buffer f, mimetype f)),
               files = tmp(temp_path w f \<mapsto> buffer f),
               trace = [DateNow (now w 0), FsWriteFile (temp_path w f) (buffer f) True,
                        S3Send (image_put w env f) True, DateNow (now w 1),
                        LlamaOcr (temp_path w f) (the (TOGETHER_API_KEY env)) False]\<rparr>)
         | Inr v \<Rightarrow>
          (case length_of v of
             Inl e \<Rightarrow>
               (catch_block e,
                \<lparr>clock_reads = 3, s3_sends = 1,
                 objects = st((the (BUCKET_NAME env), s3_key w f) \<mapsto> (buffer f, mimetype f)),
                 files = tmp(temp_path w f \<mapsto> buffer f),
                 trace = [DateNow (now w 0), FsWriteFile (temp_path w f) (buffer f) True,
                          S3Send (image_put w env f) True, DateNow (now w 1),
                          LlamaOcr (temp_path w f) (the (TOGETHER_API_KEY env)) True,
                          DateNow (now w 2)]\<rparr>)
           | Inr text \<Rightarrow>
            (case s3_send w 1 (markdown_put w env f text) of
               Some e \<Rightarrow>
                 (catch_block e,
                  \<lparr>clock_reads = 3, s3_sends = 2,
                   objects = st((the (BUCKET_NAME env), s3_key w f) \<mapsto> (buffer f, mimetype f)),
                   files = tmp(temp_path w f \<mapsto> buffer f),
                   trace = [DateNow (now w 0), FsWriteFile (temp_path w f) (buffer f) True,
                            S3Send (image_put w env f) True, DateNow (now w 1),
                            LlamaOcr (temp_path w f) (the (TOGETHER_API_KEY env)) True,
                            DateNow (now w 2),
                            S3Send (markdown_put w env f text) False]\<rparr>)
             | None \<Rightarrow>
                 (json 200 (Success ''OCR processing completed successfully''
                    \<lparr>inputFile = s3_key w f,
                     outputFile = replace_ext (s3_key w f),
                     markdown = text,
                     bucket = the (BUCKET_NAME env),
                     processingTime = toFixed2_div1000 (now w 2 - now w 1) @ ''s''\<rparr>),
                  unlink_quietly w (temp_path w f)
                  \<lparr>clock_reads = 3, s3_sends = 2,
                   objects = st((the (BUCKET_NAME env), s3_key w f) \<mapsto> (buffer f, mimetype f),
                                (the (BUCKET_NAME env), replace_ext (s3_key w f)) \<mapsto>
                                  (text, ''text/markdown'')),
                   files = tmp(temp_path w f \<mapsto> buffer f),
                   trace = [DateNow (now w 0), FsWriteFile (temp_path w f) (buffer f) True,
                            S3Send (image_put w env f) True, DateNow (now w 1),
                            LlamaOcr (temp_path w f) (the (TOGETHER_API_KEY env)) True,
                            DateNow (now w 2),
                            S3Send (markdown_put w env f text) True]\<rparr>))))))"
  using assms
  by (simp add: post_api_ocr_tmp_def try_block_tmp_def uploadToS3_def date_now_def
      writeFile_def ocr_def unlink_quietly_def fresh_def s3_key_def temp_path_def
      image_put_def markdown_put_def Let_def numeral_2_eq_2
      split: option.splits sum.splits)

lemma unlink_quietly_trace:
  "trace (unlink_quietly w p s) = trace s @ [FsUnlink p (fs_unlink w p = None)]"
  by (simp add: unlink_quietly_def split: option.splits)

lemma unlink_quietly_objects: "objects (unlink_quietly w p s) = objects s"
  by (simp add: unlink_quietly_def split: option.splits)

lemma catch_block_failure: "is_failure (catch_block e) \<and> status (catch_block e) = 500"
  by (simp add: catch_block_def json_def is_failure_def)

lemma s3_key_no_dot:
  "CHR ''.'' \<notin> set (originalname f) \<Longrightarrow> CHR ''.'' \<notin> set (s3_key w f)"
  by (simp add: s3_key_def show_int_no_dot)

subsection \<open>Validation\<close>

text \<open>
  C2. The handler of \<open>src/server.js\<close> checks, in this order, that the image is present,
  that the inference credential is set and that the bucket is set. The first check that
  fails decides the response: status 400 for a missing file, status 500 for a missing
  credential or bucket, each with its own message in a failure envelope. The state is
  returned as it was: no clock reading, no call of the object store or of the inference
  service, nothing stored.
\<close>

theorem validator_short_circuits:
  "(req_file req = None \<longrightarrow>
      post_api_ocr w env req s =
        (\<lparr>status = 400, body = Failure ''No image file provided. Please upload an image.''\<rparr>, s)) \<and>
   (req_file req \<noteq> None \<and> \<not> truthy (TOGETHER_API_KEY env) \<longrightarrow>
      post_api_ocr w env req s =
        (\<lparr>status = 500,
          body = Failure ''Server configuration error: TOGETHER_API_KEY not set''\<rparr>, s)) \<and>
   (req_file req \<noteq> None \<and> truthy (TOGETHER_API_KEY env) \<and> \<not> truthy (BUCKET_NAME env) \<longrightarrow>
      post_api_ocr w env req s =
        (\<lparr>status = 500,
          body = Failure ''Server configuration error: BUCKET_NAME not set''\<rparr>, s))"
  by (auto simp: post_api_ocr_def try_block_def json_def)

theorem validator_short_circuits_witness:
  "post_api_ocr calm configured \<lparr>req_file = None\<rparr> idle =
     (\<lparr>status = 400, body = Failure ''No image file provided. Please upload an image.''\<rparr>,
      idle) \<and>
   post_api_ocr calm \<lparr>TOGETHER_API_KEY = Some [], BUCKET_NAME = None\<rparr> (upload a_png) idle =
     (\<lparr>status = 500,
       body = Failure ''Server configuration error: TOGETHER_API_KEY not set''\<rparr>, idle) \<and>
   post_api_ocr calm \<lparr>TOGETHER_API_KEY = Some ''key'', BUCKET_NAME = None\<rparr> (upload a_png) idle =
     (\<lparr>status = 500,
       body = Failure ''Server configuration error: BUCKET_NAME not set''\<rparr>, idle)"
  using
    validator_short_circuits
      [where req = "\<lparr>req_file = None\<rparr>" and w = calm and env = configured and s = idle]
    validator_short_circuits
      [where req = "upload a_png" and w = calm and s = idle
         and env = "\<lparr>TOGETHER_API_KEY = Some [], BUCKET_NAME = None\<rparr>"]
    validator_short_circuits
      [where req = "upload a_png" and w = calm and s = idle
         and env = "\<lparr>TOGETHER_API_KEY = Some ''key'', BUCKET_NAME = None\<rparr>"]
  by (simp add: upload_def)

subsection \<open>Sample runs\<close>

lemma digits_small: "n < 10 \<Longrightarrow> digits n = [digit_char n]"
  by (simp add: digits.simps [of n])

lemma digits_large: "\<not> n < 10 \<Longrightarrow> digits n = digits (n div 10) @ [digit_char (n mod 10)]"
  by (simp add: digits.simps [of n])

lemma digit_char_simps:
  "digit_char 0 = CHR ''0''" "digit_char (Suc 0) = CHR ''1''" "digit_char 2 = CHR ''2''"
  "digit_char 3 = CHR ''3''" "digit_char 4 = CHR ''4''" "digit_char 5 = CHR ''5''"
  "digit_char 6 = CHR ''6''" "digit_char 7 = CHR ''7''" "digit_char 8 = CHR ''8''"
  "digit_char 9 = CHR ''9''"
  by (simp_all add: digit_char_def)

lemma show_int_1700: "show_int 1700 = ''1700''"
  by (simp add: show_int_def digits_small digits_large digit_char_simps)

lemma two_seconds: "toFixed2_div1000 2000 = ''2.00''"
  by (simp add: toFixed2_div1000_def hundredths_def double_scale_def double_mantissa_def
      round_half_even_def fixed2_def Let_def upt_rec digits_small digits_large digit_char_simps)

lemma sample_keys:
  "s3_key calm f = ''uploads/1700-'' @ originalname f"
  "temp_path calm f = ''/tmp/1700-'' @ originalname f"
  by (simp_all add: s3_key_def temp_path_def calm_def show_int_1700)

lemma sample_valid:
  "req_file (upload f) = Some f"
  "truthy (TOGETHER_API_KEY configured)" "truthy (BUCKET_NAME configured)"
  "the (TOGETHER_API_KEY configured) = ''key''" "the (BUCKET_NAME configured) = ''bucket''"
  by (simp_all add: upload_def configured_def)

lemma run_calm:
  "post_api_ocr calm configured (upload a_png) idle =
     (\<lparr>status = 200,
       body = Success ''OCR processing completed successfully''
         \<lparr>inputFile = ''uploads/1700-a.png'', outputFile = ''uploads/1700-a.md'',
          markdown = ''# Title'', bucket = ''bucket'', processingTime = ''2.00s''\<rparr>\<rparr>,
      \<lparr>clock_reads = 3, s3_sends = 2,
       objects = [(''bucket'', ''uploads/1700-a.png'') \<mapsto> (''abc'', ''image/png''),
                  (''bucket'', ''uploads/1700-a.md'') \<mapsto> (''# Title'', ''text/markdown'')],
       files = Map.empty,
       trace = [DateNow 1700, S3Send (image_put calm configured a_png) True,
                DateNow 5000, TogetherCreate (chat_of a_png) True,
                DateNow 7000,
                S3Send (markdown_put calm configured a_png ''# Title'') True]\<rparr>)"
  unfolding idle_def post_api_ocr_valid [OF sample_valid(1-3)] sample_keys sample_valid
  by (simp add: calm_def a_png_def json_def first_content_def two_seconds)

subsection \<open>What reaches the object store\<close>

lemma run_md_put_fails:
  "post_api_ocr md_put_fails configured (upload a_png) idle =
     (\<lparr>status = 500, body = Failure ''SlowDown''\<rparr>,
      \<lparr>clock_reads = 3, s3_sends = 2,
       objects = [(''bucket'', ''uploads/1700-a.png'') \<mapsto> (''abc'', ''image/png'')],
       files = Map.empty,
       trace = [DateNow 1700, S3Send (image_put md_put_fails configured a_png) True,
                DateNow 5000, TogetherCreate (chat_of a_png) True,
                DateNow 7000,
                S3Send (markdown_put md_put_fails configured a_png ''# Title'') False]\<rparr>)"
  unfolding idle_def post_api_ocr_valid [OF sample_valid(1-3)] sample_valid
  by (simp add: md_put_fails_def calm_def a_png_def json_def first_content_def catch_block_def
        s3_key_def show_int_1700)

lemma run_rate_limited:
  "post_api_ocr rate_limited configured (upload a_png) idle =
     (\<lparr>status = 500, body = Failure ''RateLimited''\<rparr>,
      \<lparr>clock_reads = 2, s3_sends = 1,
       objects = [(''bucket'', ''uploads/1700-a.png'') \<mapsto> (''abc'', ''image/png'')],
       files = Map.empty,
       trace = [DateNow 1700, S3Send (image_put rate_limited configured a_png) True,
                DateNow 5000, TogetherCreate (chat_of a_png) False]\<rparr>)"
  unfolding idle_def post_api_ocr_valid [OF sample_valid(1-3)] sample_valid
  by (simp add: rate_limited_def calm_def a_png_def json_def catch_block_def
        s3_key_def show_int_1700)

text \<open>
  C1, as stated: a markdown object is written to the store if and only if the inference
  call succeeded. It fails when the store refuses the markdown put: the inference call
  has returned, no markdown object is stored, and the response is a failure.
\<close>

theorem markdown_stored_iff_inference_counterexample:
  "\<not> (markdown_stored (trace (snd (post_api_ocr md_put_fails configured (upload a_png) idle)))
       \<longleftrightarrow>
      inference_succeeded (trace (snd (post_api_ocr md_put_fails configured (upload a_png) idle))))
   \<and> objects (snd (post_api_ocr md_put_fails configured (upload a_png) idle))
         (''bucket'', ''uploads/1700-a.md'') = None"
  by (simp add: run_md_put_fails markdown_stored_def inference_succeeded_def)

text \<open>
  C1, amended. In \<open>src/server.js\<close> no put is issued when validation fails, and when it
  passes the first put is the image put: the uploaded bytes under the image key with the
  content type of the upload. The inference call returned exactly when the image put was
  accepted and the inference double returns; then, and only then, a second put is
  issued, and it is the markdown put: the extracted text (or the placeholder) under the
  markdown key with content type \<open>text/markdown\<close>. There is never a third put. This holds
  whether or not a later step fails. An object is stored only if its put was issued and
  the store accepted it: the store after the request is the store before it with the
  accepted puts written, and a refused put makes the response a failure envelope. When
  the inference call throws, no markdown put is issued and the response is a failure
  envelope with status 500.
\<close>

theorem puts_follow_progress:
  assumes "post_api_ocr w env req (fresh st tmp) = (r, s')"
  shows "(\<not> validation_passed env req \<longrightarrow> sends (trace s') = []) \<and>
         (\<forall>f. req_file req = Some f \<and> validation_passed env req \<longrightarrow>
            map fst (take 1 (sends (trace s'))) = [image_put w env f] \<and>
            (inference_succeeded (trace s') \<longleftrightarrow>
               s3_send w 0 (image_put w env f) = None \<and>
               (\<exists>c. together_create w (chat_of f) = Inr c)) \<and>
            (inference_threw (trace s') \<longleftrightarrow>
               s3_send w 0 (image_put w env f) = None \<and>
               (\<exists>e. together_create w (chat_of f) = Inl e)) \<and>
            (inference_succeeded (trace s') \<longrightarrow>
               take 1 (sends (trace s')) = [(image_put w env f, True)] \<and>
               map fst (drop 1 (sends (trace s'))) =
                 [markdown_put w env f (inline_markdown w f)]) \<and>
            (\<not> inference_succeeded (trace s') \<longrightarrow> drop 1 (sends (trace s')) = [])) \<and>
         objects s' = stored_after (sends (trace s')) st \<and>
         (False \<in> set (map snd (sends (trace s'))) \<longrightarrow> is_failure r) \<and>
         (inference_threw (trace s') \<longrightarrow>
            drop 1 (sends (trace s')) = [] \<and> is_failure r \<and> status r = 500)"
proof (cases "validation_passed env req")
  case False
  then have "snd (post_api_ocr w env req (fresh st tmp)) = fresh st tmp"
    by (simp add: post_api_ocr_invalid)
  with assms have "trace s' = []" "objects s' = st" by (auto simp: fresh_def)
  with False show ?thesis
    by (simp add: inference_threw_def)
next
  case True
  then obtain f where f: "req_file req = Some f"
      and k: "truthy (TOGETHER_API_KEY env)" and b: "truthy (BUCKET_NAME env)"
    by (auto simp: validation_passed_def)
  from assms True show ?thesis
    unfolding post_api_ocr_valid [OF f k b]
    by (auto simp: f inference_succeeded_def inference_threw_def catch_block_failure
          inline_markdown_def image_put_def markdown_put_def
          split: option.splits sum.splits)
qed

lemma run_store_down:
  "post_api_ocr store_down configured (upload a_png) idle =
     (\<lparr>status = 500, body = Failure ''AccessDenied''\<rparr>,
      \<lparr>clock_reads = 1, s3_sends = 1, objects = Map.empty, files = Map.empty,
       trace = [DateNow 1700, S3Send (image_put store_down configured a_png) False]\<rparr>)"
  unfolding idle_def post_api_ocr_valid [OF sample_valid(1-3)] sample_valid
  by (simp add: store_down_def calm_def a_png_def json_def catch_block_def
        s3_key_def show_int_1700)

theorem puts_follow_progress_witness:
  "\<not> validation_passed configured \<lparr>req_file = None\<rparr> \<and>
   sends (trace (snd (post_api_ocr calm configured \<lparr>req_file = None\<rparr> idle))) = [] \<and>
   req_file (upload a_png) = Some a_png \<and>
   validation_passed configured (upload a_png) \<and>
   inference_threw (trace (snd (post_api_ocr rate_limited configured (upload a_png) idle))) \<and>
   map fst (take 1 (sends (trace (snd (post_api_ocr rate_limited configured (upload a_png) idle)))))
     = [image_put rate_limited configured a_png] \<and>
   drop 1 (sends (trace (snd (post_api_ocr rate_limited configured (upload a_png) idle)))) = [] \<and>
   is_failure (fst (post_api_ocr rate_limited configured (upload a_png) idle)) \<and>
   status (fst (post_api_ocr rate_limited configured (upload a_png) idle)) = 500 \<and>
   inference_succeeded (trace (snd (post_api_ocr calm configured (upload a_png) idle))) \<and>
   take 1 (sends (trace (snd (post_api_ocr calm configured (upload a_png) idle)))) =
     [(image_put calm configured a_png, True)] \<and>
   map fst (drop 1 (sends (trace (snd (post_api_ocr calm configured (upload a_png) idle))))) =
     [markdown_put calm configured a_png (inline_markdown calm a_png)] \<and>
   False \<in> set (map snd
     (sends (trace (snd (post_api_ocr md_put_fails configured (upload a_png) idle))))) \<and>
   is_failure (fst (post_api_ocr md_put_fails configured (upload a_png) idle)) \<and>
   \<not> inference_succeeded (trace (snd (post_api_ocr store_down configured (upload a_png) idle))) \<and>
   drop 1 (sends (trace (snd (post_api_ocr store_down configured (upload a_png) idle)))) = []"
proof -
  have invalid: "\<not> validation_passed configured \<lparr>req_file = None\<rparr>"
    by (simp add: validation_passed_def)
  have valid: "req_file (upload a_png) = Some a_png" "validation_passed configured (upload a_png)"
    by (simp_all add: validation_passed_def sample_valid)
  have thrown:
    "inference_threw (trace (snd (post_api_ocr rate_limited configured (upload a_png) idle)))"
    by (simp add: run_rate_limited inference_threw_def)
  have returned:
    "inference_succeeded (trace (snd (post_api_ocr calm configured (upload a_png) idle)))"
    by (simp add: run_calm inference_succeeded_def)
  have refused:
    "False \<in> set (map snd
       (sends (trace (snd (post_api_ocr md_put_fails configured (upload a_png) idle)))))"
    by (simp add: run_md_put_fails)
  have down:
    "\<not> inference_succeeded
        (trace (snd (post_api_ocr store_down configured (upload a_png) idle)))"
    by (simp add: run_store_down inference_succeeded_def)
  have run: "post_api_ocr w configured q (fresh Map.empty Map.empty) =
      (fst (post_api_ocr w configured q idle), snd (post_api_ocr w configured q idle))" for w q
    by (simp add: idle_def)
  have a: "sends (trace (snd (post_api_ocr calm configured \<lparr>req_file = None\<rparr> idle))) = []"
    using puts_follow_progress [OF run [of calm "\<lparr>req_file = None\<rparr>"]] invalid by simp
  have b: "map fst
       (take 1 (sends (trace (snd (post_api_ocr rate_limited configured (upload a_png) idle)))))
     = [image_put rate_limited configured a_png] \<and>
   drop 1 (sends (trace (snd (post_api_ocr rate_limited configured (upload a_png) idle)))) = [] \<and>
   is_failure (fst (post_api_ocr rate_limited configured (upload a_png) idle)) \<and>
   status (fst (post_api_ocr rate_limited configured (upload a_png) idle)) = 500"
    using puts_follow_progress [OF run [of rate_limited "upload a_png"]] valid thrown by blast
  have c: "take 1 (sends (trace (snd (post_api_ocr calm configured (upload a_png) idle)))) =
     [(image_put calm configured a_png, True)] \<and>
   map fst (drop 1 (sends (trace (snd (post_api_ocr calm configured (upload a_png) idle))))) =
     [markdown_put calm configured a_png (inline_markdown calm a_png)]"
    using puts_follow_progress [OF run [of calm "upload a_png"]] valid returned by blast
  have d: "is_failure (fst (post_api_ocr md_put_fails configured (upload a_png) idle))"
    using puts_follow_progress [OF run [of md_put_fails "upload a_png"]] refused by blast
  have e: "drop 1 (sends (trace (snd (post_api_ocr store_down configured (upload a_png) idle))))
     = []"
    using puts_follow_progress [OF run [of store_down "upload a_png"]] valid down by blast
  from invalid valid thrown returned refused down a b c d e
  show ?thesis by (intro conjI) (simp_all only: simp_thms)
qed

lemma run_calm_tmp:
  "post_api_ocr_tmp calm configured (upload a_png) idle =
     (\<lparr>status = 200,
       body = Success ''OCR processing completed successfully''
         \<lparr>inputFile = ''uploads/1700-a.png'', outputFile = ''uploads/1700-a.md'',
          markdown = ''# Title'', bucket = ''bucket'', processingTime = ''2.00s''\<rparr>\<rparr>,
      \<lparr>clock_reads = 3, s3_sends = 2,
       objects = [(''bucket'', ''uploads/1700-a.png'') \<mapsto> (''abc'', ''image/png''),
                  (''bucket'', ''uploads/1700-a.md'') \<mapsto> (''# Title'', ''text/markdown'')],
       files = Map.empty,
       trace = [DateNow 1700, FsWriteFile ''/tmp/1700-a.png'' ''abc'' True,
                S3Send (image_put calm configured a_png) True,
                DateNow 5000, LlamaOcr ''/tmp/1700-a.png'' ''key'' True,
                DateNow 7000,
                S3Send (markdown_put calm configured a_png ''# Title'') True,
                FsUnlink ''/tmp/1700-a.png'' True]\<rparr>)"
  unfolding idle_def post_api_ocr_tmp_valid [OF sample_valid(1-3)] sample_keys sample_valid
  by (simp add: calm_def a_png_def json_def two_seconds unlink_quietly_def)

lemma run_rate_limited_tmp:
  "post_api_ocr_tmp rate_limited configured (upload a_png) idle =
     (\<lparr>status = 500, body = Failure ''RateLimited''\<rparr>,
      \<lparr>clock_reads = 2, s3_sends = 1,
       objects = [(''bucket'', ''uploads/1700-a.png'') \<mapsto> (''abc'', ''image/png'')],
       files = [''/tmp/1700-a.png'' \<mapsto> ''abc''],
       trace = [DateNow 1700, FsWriteFile ''/tmp/1700-a.png'' ''abc'' True,
                S3Send (image_put rate_limited configured a_png) True,
                DateNow 5000, LlamaOcr ''/tmp/1700-a.png'' ''key'' False]\<rparr>)"
  unfolding idle_def post_api_ocr_tmp_valid [OF sample_valid(1-3)] sample_valid
  by (simp add: rate_limited_def calm_def a_png_def json_def catch_block_def
        s3_key_def temp_path_def show_int_1700)

lemma run_empty_text:
  "post_api_ocr empty_text configured (upload a_png) idle =
     (\<lparr>status = 200,
       body = Success ''OCR processing completed successfully''
         \<lparr>inputFile = ''uploads/1700-a.png'', outputFile = ''uploads/1700-a.md'',
          markdown = ''No text extracted'', bucket = ''bucket'',
          processingTime = ''2.00s''\<rparr>\<rparr>,
      \<lparr>clock_reads = 3, s3_sends = 2,
       objects = [(''bucket'', ''uploads/1700-a.png'') \<mapsto> (''abc'', ''image/png''),
                  (''bucket'', ''uploads/1700-a.md'') \<mapsto>
                    (''No text extracted'', ''text/markdown'')],
       files = Map.empty,
       trace = [DateNow 1700, S3Send (image_put empty_text configured a_png) True,
                DateNow 5000, TogetherCreate (chat_of a_png) True,
                DateNow 7000,
                S3Send (markdown_put empty_text configured a_png ''No text extracted'') True]\<rparr>)"
  unfolding idle_def post_api_ocr_valid [OF sample_valid(1-3)] sample_valid
  by (simp add: empty_text_def calm_def a_png_def json_def first_content_def two_seconds
        s3_key_def show_int_1700)

lemma run_empty_text_tmp:
  "post_api_ocr_tmp empty_text configured (upload a_png) idle =
     (\<lparr>status = 200,
       body = Success ''OCR processing completed successfully''
         \<lparr>inputFile = ''uploads/1700-a.png'', outputFile = ''uploads/1700-a.md'',
          markdown = [], bucket = ''bucket'', processingTime = ''2.00s''\<rparr>\<rparr>,
      \<lparr>clock_reads = 3, s3_sends = 2,
       objects = [(''bucket'', ''uploads/1700-a.png'') \<mapsto> (''abc'', ''image/png''),
                  (''bucket'', ''uploads/1700-a.md'') \<mapsto> ([], ''text/markdown'')],
       files = Map.empty,
       trace = [DateNow 1700, FsWriteFile ''/tmp/1700-a.png'' ''abc'' True,
                S3Send (image_put empty_text configured a_png) True,
                DateNow 5000, LlamaOcr ''/tmp/1700-a.png'' ''key'' True,
                DateNow 7000,
                S3Send (markdown_put empty_text configured a_png []) True,
                FsUnlink ''/tmp/1700-a.png'' True]\<rparr>)"
  unfolding idle_def post_api_ocr_tmp_valid [OF sample_valid(1-3)] sample_valid
  by (simp add: empty_text_def calm_def a_png_def json_def two_seconds unlink_quietly_def
        s3_key_def temp_path_def show_int_1700)

subsection \<open>Storage keys\<close>

lemma failure_has_no_data: "is_failure r \<Longrightarrow> response_data r = None"
  by (simp add: is_failure_def response_data_def split: envelope.splits)

lemma catch_block_data: "response_data (catch_block e) = None"
  by (simp add: failure_has_no_data catch_block_failure)

lemma json_data:
  "response_data (json code (Success m d)) = Some d"
  "response_data (json code (Failure m)) = None"
  by (simp_all add: json_def response_data_def)

lemma success_is_valid:
  assumes "post_api_ocr w env req s = (r, s')" "response_data r = Some d"
  shows "validation_passed env req"
proof (rule ccontr)
  assume "\<not> validation_passed env req"
  then have "is_failure (fst (post_api_ocr w env req s))" by (simp add: post_api_ocr_invalid)
  with assms show False by (simp add: failure_has_no_data)
qed

lemma success_tmp_is_valid:
  assumes "post_api_ocr_tmp w env req s = (r, s')" "response_data r = Some d"
  shows "validation_passed env req"
proof (rule ccontr)
  assume "\<not> validation_passed env req"
  then have "is_failure (fst (post_api_ocr_tmp w env req s))"
    by (simp add: post_api_ocr_tmp_invalid)
  with assms show False by (simp add: failure_has_no_data)
qed

text \<open>
  C5. For every upload that passes validation, in both variants, the keys of the puts
  are an initial segment of the image key followed by the markdown key, where the image
  key is \<open>uploads/\<close>, the first clock reading in decimal, a hyphen and the original file
  name, and the markdown key is the image key with its final extension replaced by
  \<open>.md\<close>. In \<open>src/server.js\<close> the image put is always issued. A success envelope
  reports the two keys as \<open>inputFile\<close> and \<open>outputFile\<close>.
\<close>

theorem storage_key_layout:
  assumes "req_file req = Some f" "truthy (TOGETHER_API_KEY env)" "truthy (BUCKET_NAME env)"
    and "K = ''uploads/'' @ show_int (now w 0) @ ''-'' @ originalname f"
  shows "(post_api_ocr w env req (fresh st tmp) = (r, s') \<longrightarrow>
            sends (trace s') \<noteq> [] \<and>
            initial_segment (map (Key \<circ> fst) (sends (trace s'))) [K, spec_md_key K] \<and>
            (\<forall>d. response_data r = Some d \<longrightarrow>
                inputFile d = K \<and> outputFile d = spec_md_key K)) \<and>
         (post_api_ocr_tmp w env req (fresh st tmp) = (r, s') \<longrightarrow>
            initial_segment (map (Key \<circ> fst) (sends (trace s'))) [K, spec_md_key K] \<and>
            (\<forall>d. response_data r = Some d \<longrightarrow>
                inputFile d = K \<and> outputFile d = spec_md_key K))"
proof -
  have K: "K = s3_key w f" by (simp add: assms(4) s3_key_def)
  show ?thesis
    unfolding post_api_ocr_valid [OF assms(1-3)] post_api_ocr_tmp_valid [OF assms(1-3)] K
    by (auto simp: catch_block_data json_data image_put_def markdown_put_def
          replace_ext_spec unlink_quietly_trace split: option.splits sum.splits)
qed

theorem storage_key_layout_witness:
  "req_file (upload a_png) = Some a_png \<and> truthy (TOGETHER_API_KEY configured) \<and>
   truthy (BUCKET_NAME configured) \<and>
   sends (trace (snd (post_api_ocr calm configured (upload a_png) idle))) \<noteq> [] \<and>
   initial_segment
     (map (Key \<circ> fst) (sends (trace (snd (post_api_ocr calm configured (upload a_png) idle)))))
     [''uploads/1700-a.png'', spec_md_key ''uploads/1700-a.png''] \<and>
   response_data (fst (post_api_ocr calm configured (upload a_png) idle)) =
     Some \<lparr>inputFile = ''uploads/1700-a.png'', outputFile = ''uploads/1700-a.md'',
           markdown = ''# Title'', bucket = ''bucket'', processingTime = ''2.00s''\<rparr> \<and>
   initial_segment
     (map (Key \<circ> fst)
        (sends (trace (snd (post_api_ocr_tmp calm configured (upload a_png) idle)))))
     [''uploads/1700-a.png'', spec_md_key ''uploads/1700-a.png''] \<and>
   response_data (fst (post_api_ocr_tmp calm configured (upload a_png) idle)) =
     Some \<lparr>inputFile = ''uploads/1700-a.png'', outputFile = ''uploads/1700-a.md'',
           markdown = ''# Title'', bucket = ''bucket'', processingTime = ''2.00s''\<rparr> \<and>
   ''uploads/1700-a.md'' = spec_md_key ''uploads/1700-a.png''"
proof -
  have data: "response_data (fst (post_api_ocr calm configured (upload a_png) idle)) =
     Some \<lparr>inputFile = ''uploads/1700-a.png'', outputFile = ''uploads/1700-a.md'',
           markdown = ''# Title'', bucket = ''bucket'', processingTime = ''2.00s''\<rparr>"
    "response_data (fst (post_api_ocr_tmp calm configured (upload a_png) idle)) =
     Some \<lparr>inputFile = ''uploads/1700-a.png'', outputFile = ''uploads/1700-a.md'',
           markdown = ''# Title'', bucket = ''bucket'', processingTime = ''2.00s''\<rparr>"
    by (simp_all add: run_calm run_calm_tmp response_data_def)
  from
    storage_key_layout
      [where req = "upload a_png" and f = a_png and env = configured and w = calm
         and st = Map.empty and tmp = Map.empty
         and r = "fst (post_api_ocr calm configured (upload a_png) idle)"
         and s' = "snd (post_api_ocr calm configured (upload a_png) idle)"
         and K = "''uploads/1700-a.png''"]
    storage_key_layout
      [where req = "upload a_png" and f = a_png and env = configured and w = calm
         and st = Map.empty and tmp = Map.empty
         and r = "fst (post_api_ocr_tmp calm configured (upload a_png) idle)"
         and s' = "snd (post_api_ocr_tmp calm configured (upload a_png) idle)"
         and K = "''uploads/1700-a.png''"]
    data
  show ?thesis
    by (simp add: sample_valid idle_def [symmetric] calm_def show_int_1700 a_png_def)
qed

text \<open>
  C6. Every request to \<open>src/server.js\<close> that is answered with a success envelope made
  exactly two puts, and the store accepted both. The first carries the uploaded bytes
  under the content type of the upload; the second carries the markdown of the envelope
  under the content type \<open>text/markdown\<close>, and its key is the key of the first with the
  final extension replaced by \<open>.md\<close>. Both go to the bucket of the envelope.
\<close>

theorem success_makes_two_puts:
  assumes "post_api_ocr w env req (fresh st tmp) = (r, s')" "response_data r = Some d"
  shows "\<exists>f c1 c2.
           req_file req = Some f \<and> sends (trace s') = [(c1, True), (c2, True)] \<and>
           ContentType c1 = mimetype f \<and> Body c1 = buffer f \<and>
           ContentType c2 = ''text/markdown'' \<and> Body c2 = markdown d \<and>
           Key c1 = inputFile d \<and> Key c2 = outputFile d \<and>
           Key c2 = spec_md_key (Key c1) \<and>
           Bucket c1 = bucket d \<and> Bucket c2 = bucket d"
proof -
  from assms have "validation_passed env req" by (rule success_is_valid)
  then obtain f where f: "req_file req = Some f"
      and k: "truthy (TOGETHER_API_KEY env)" and b: "truthy (BUCKET_NAME env)"
    by (auto simp: validation_passed_def)
  from assms show ?thesis
    unfolding post_api_ocr_valid [OF f k b]
    by (auto simp: f catch_block_data json_data image_put_def markdown_put_def replace_ext_spec
          split: option.splits sum.splits)
qed

theorem success_makes_two_puts_witness:
  "post_api_ocr calm configured (upload a_png) idle =
     (fst (post_api_ocr calm configured (upload a_png) idle),
      snd (post_api_ocr calm configured (upload a_png) idle)) \<and>
   response_data (fst (post_api_ocr calm configured (upload a_png) idle)) =
     Some \<lparr>inputFile = ''uploads/1700-a.png'', outputFile = ''uploads/1700-a.md'',
           markdown = ''# Title'', bucket = ''bucket'', processingTime = ''2.00s''\<rparr> \<and>
   (\<exists>c1 c2.
      sends (trace (snd (post_api_ocr calm configured (upload a_png) idle))) =
        [(c1, True), (c2, True)] \<and>
      ContentType c1 = ''image/png'' \<and> Body c1 = ''abc'' \<and>
      ContentType c2 = ''text/markdown'' \<and> Body c2 = ''# Title'' \<and>
      Key c1 = ''uploads/1700-a.png'' \<and> Key c2 = ''uploads/1700-a.md'' \<and>
      Key c2 = spec_md_key (Key c1) \<and> Bucket c1 = ''bucket'' \<and> Bucket c2 = ''bucket'')"
proof -
  have data: "response_data (fst (post_api_ocr calm configured (upload a_png) idle)) =
     Some \<lparr>inputFile = ''uploads/1700-a.png'', outputFile = ''uploads/1700-a.md'',
           markdown = ''# Title'', bucket = ''bucket'', processingTime = ''2.00s''\<rparr>"
    by (simp add: run_calm response_data_def)
  have run: "post_api_ocr calm configured (upload a_png) (fresh Map.empty Map.empty) =
     (fst (post_api_ocr calm configured (upload a_png) idle),
      snd (post_api_ocr calm configured (upload a_png) idle))"
    by (simp add: idle_def)
  from success_makes_two_puts [OF run data] data show ?thesis
    by (auto simp: upload_def a_png_def)
qed

text \<open>
  C9. When the original file name contains no full stop, the regular expression does
  not match: the derived markdown key is the image key itself. In both variants a
  request answered with a success envelope then made both puts under that one key, and
  the object left under it is the markdown, with content type \<open>text/markdown\<close>, in place
  of the image.
\<close>

theorem dotless_name_overwrites_image:
  assumes "CHR ''.'' \<notin> set (originalname f)" "req_file req = Some f"
  shows "replace_ext (s3_key w f) = s3_key w f \<and>
         (post_api_ocr w env req (fresh st tmp) = (r, s') \<and> response_data r = Some d \<longrightarrow>
            outputFile d = inputFile d \<and>
            map (Key \<circ> fst) (sends (trace s')) = [inputFile d, inputFile d] \<and>
            map snd (sends (trace s')) = [True, True] \<and>
            objects s' (bucket d, inputFile d) = Some (markdown d, ''text/markdown'')) \<and>
         (post_api_ocr_tmp w env req (fresh st tmp) = (r, s') \<and> response_data r = Some d \<longrightarrow>
            outputFile d = inputFile d \<and>
            map (Key \<circ> fst) (sends (trace s')) = [inputFile d, inputFile d] \<and>
            map snd (sends (trace s')) = [True, True] \<and>
            objects s' (bucket d, inputFile d) = Some (markdown d, ''text/markdown''))"
proof -
  have same: "replace_ext (s3_key w f) = s3_key w f"
    using assms(1) by (simp add: replace_ext_no_dot s3_key_no_dot)
  have "?thesis" if "\<not> validation_passed env req"
    using that same success_is_valid success_tmp_is_valid by blast
  moreover have "?thesis" if "validation_passed env req"
  proof -
    from that have k: "truthy (TOGETHER_API_KEY env)" and b: "truthy (BUCKET_NAME env)"
      by (auto simp: validation_passed_def)
    show ?thesis
      unfolding post_api_ocr_valid [OF assms(2) k b] post_api_ocr_tmp_valid [OF assms(2) k b]
      by (auto simp: same catch_block_data json_data image_put_def markdown_put_def
            unlink_quietly_trace unlink_quietly_objects split: option.splits sum.splits)
  qed
  ultimately show ?thesis by blast
qed

lemma run_readme:
  "post_api_ocr calm configured (upload readme) idle =
     (\<lparr>status = 200,
       body = Success ''OCR processing completed successfully''
         \<lparr>inputFile = ''uploads/1700-README'', outputFile = ''uploads/1700-README'',
          markdown = ''# Title'', bucket = ''bucket'', processingTime = ''2.00s''\<rparr>\<rparr>,
      \<lparr>clock_reads = 3, s3_sends = 2,
       objects = [(''bucket'', ''uploads/1700-README'') \<mapsto> (''# Title'', ''text/markdown'')],
       files = Map.empty,
       trace = [DateNow 1700, S3Send (image_put calm configured readme) True,
                DateNow 5000, TogetherCreate (chat_of readme) True,
                DateNow 7000,
                S3Send (markdown_put calm configured readme ''# Title'') True]\<rparr>)"
  unfolding idle_def post_api_ocr_valid [OF sample_valid(1-3)] sample_keys sample_valid
  by (simp add: calm_def readme_def json_def first_content_def two_seconds)

lemma run_readme_tmp:
  "post_api_ocr_tmp calm configured (upload readme) idle =
     (\<lparr>status = 200,
       body = Success ''OCR processing completed successfully''
         \<lparr>inputFile = ''uploads/1700-README'', outputFile = ''uploads/1700-README'',
          markdown = ''# Title'', bucket = ''bucket'', processingTime = ''2.00s''\<rparr>\<rparr>,
      \<lparr>clock_reads = 3, s3_sends = 2,
       objects = [(''bucket'', ''uploads/1700-README'') \<mapsto> (''# Title'', ''text/markdown'')],
       files = Map.empty,
       trace = [DateNow 1700, FsWriteFile ''/tmp/1700-README'' ''abc'' True,
                S3Send (image_put calm configured readme) True,
                DateNow 5000, LlamaOcr ''/tmp/1700-README'' ''key'' True,
                DateNow 7000,
                S3Send (markdown_put calm configured readme ''# Title'') True,
                FsUnlink ''/tmp/1700-README'' True]\<rparr>)"
  unfolding idle_def post_api_ocr_tmp_valid [OF sample_valid(1-3)] sample_keys sample_valid
  by (simp add: calm_def readme_def json_def two_seconds unlink_quietly_def)

theorem dotless_name_overwrites_image_witness:
  "CHR ''.'' \<notin> set (originalname readme) \<and> req_file (upload readme) = Some readme \<and>
   response_data (fst (post_api_ocr calm configured (upload readme) idle)) =
     Some \<lparr>inputFile = ''uploads/1700-README'', outputFile = ''uploads/1700-README'',
           markdown = ''# Title'', bucket = ''bucket'', processingTime = ''2.00s''\<rparr> \<and>
   response_data (fst (post_api_ocr_tmp calm configured (upload readme) idle)) =
     Some \<lparr>inputFile = ''uploads/1700-README'', outputFile = ''uploads/1700-README'',
           markdown = ''# Title'', bucket = ''bucket'', processingTime = ''2.00s''\<rparr> \<and>
   replace_ext (s3_key calm readme) = s3_key calm readme \<and>
   map (Key \<circ> fst) (sends (trace (snd (post_api_ocr calm configured (upload readme) idle)))) =
     [''uploads/1700-README'', ''uploads/1700-README''] \<and>
   objects (snd (post_api_ocr calm configured (upload readme) idle))
     (''bucket'', ''uploads/1700-README'') = Some (''# Title'', ''text/markdown'') \<and>
   map (Key \<circ> fst)
     (sends (trace (snd (post_api_ocr_tmp calm configured (upload readme) idle)))) =
     [''uploads/1700-README'', ''uploads/1700-README''] \<and>
   objects (snd (post_api_ocr_tmp calm configured (upload readme) idle))
     (''bucket'', ''uploads/1700-README'') = Some (''# Title'', ''text/markdown'')"
proof -
  have name: "CHR ''.'' \<notin> set (originalname readme)" by (simp add: readme_def)
  have data: "response_data (fst (post_api_ocr calm configured (upload readme) idle)) =
     Some \<lparr>inputFile = ''uploads/1700-README'', outputFile = ''uploads/1700-README'',
           markdown = ''# Title'', bucket = ''bucket'', processingTime = ''2.00s''\<rparr>"
    by (simp add: run_readme response_data_def)
  have data_tmp: "response_data (fst (post_api_ocr_tmp calm configured (upload readme) idle)) =
     Some \<lparr>inputFile = ''uploads/1700-README'', outputFile = ''uploads/1700-README'',
           markdown = ''# Title'', bucket = ''bucket'', processingTime = ''2.00s''\<rparr>"
    by (simp add: run_readme_tmp response_data_def)
  from dotless_name_overwrites_image
         [OF name sample_valid(1), where w = calm and env = configured
            and st = Map.empty and tmp = Map.empty
            and r = "fst (post_api_ocr calm configured (upload readme) idle)"
            and s' = "snd (post_api_ocr calm configured (upload readme) idle)"
            and d = "\<lparr>inputFile = ''uploads/1700-README'', outputFile = ''uploads/1700-README'',
                       markdown = ''# Title'', bucket = ''bucket'', processingTime = ''2.00s''\<rparr>"]
       dotless_name_overwrites_image
         [OF name sample_valid(1), where w = calm and env = configured
            and st = Map.empty and tmp = Map.empty
            and r = "fst (post_api_ocr_tmp calm configured (upload readme) idle)"
            and s' = "snd (post_api_ocr_tmp calm configured (upload readme) idle)"
            and d = "\<lparr>inputFile = ''uploads/1700-README'', outputFile = ''uploads/1700-README'',
                       markdown = ''# Title'', bucket = ''bucket'', processingTime = ''2.00s''\<rparr>"]
       name data data_tmp
  show ?thesis
    by (simp add: idle_def [symmetric] sample_valid)
qed

subsection \<open>No text extracted\<close>

lemma json_status:
  "status (json code e) = code"
  "is_failure (json code (Failure m))"
  "\<not> is_failure (json code (Success m d))"
  by (simp_all add: json_def is_failure_def)

text \<open>
  C3, as stated for both variants: when the inference provider returns no usable text,
  the markdown of the success envelope and of the stored object is the literal
  \<open>No text extracted\<close>. The temp-file variant has no such substitution: an empty string
  from \<open>ocr\<close> is returned and stored as the empty string.
\<close>

theorem placeholder_counterexample:
  "response_data (fst (post_api_ocr_tmp empty_text configured (upload a_png) idle)) =
     Some \<lparr>inputFile = ''uploads/1700-a.png'', outputFile = ''uploads/1700-a.md'',
           markdown = [], bucket = ''bucket'', processingTime = ''2.00s''\<rparr> \<and>
   response_data (fst (post_api_ocr_tmp empty_text configured (upload a_png) idle)) \<noteq>
     Some \<lparr>inputFile = ''uploads/1700-a.png'', outputFile = ''uploads/1700-a.md'',
           markdown = ''No text extracted'', bucket = ''bucket'', processingTime = ''2.00s''\<rparr> \<and>
   objects (snd (post_api_ocr_tmp empty_text configured (upload a_png) idle))
     (''bucket'', ''uploads/1700-a.md'') = Some ([], ''text/markdown'')"
  by (simp add: run_empty_text_tmp response_data_def)

text \<open>
  C3, amended. In \<open>src/server.js\<close>, when validation passed, the image put succeeded and
  the completion has no usable text (no first choice, no message, or a missing or empty
  content), the markdown put carries exactly \<open>No text extracted\<close>. If the store accepts
  that put, the response is a success envelope with status 200 whose markdown field is
  that literal, and the object stored under the markdown key has that literal as its
  content; if the store refuses it, the response is a failure envelope. The temp-file
  variant substitutes nothing: the string \<open>ocr\<close> resolved to is what it sends to the
  store and, when the store accepts it, what it returns.
\<close>

theorem placeholder_in_inline_variant:
  assumes "req_file req = Some f" "truthy (TOGETHER_API_KEY env)" "truthy (BUCKET_NAME env)"
    and "s3_send w 0 (image_put w env f) = None"
  shows "(together_create w (chat_of f) = Inr c \<and> \<not> truthy (first_content c) \<and>
          post_api_ocr w env req (fresh st tmp) = (r, s') \<longrightarrow>
            map fst (sends (trace s')) =
              [image_put w env f, markdown_put w env f ''No text extracted''] \<and>
            (markdown_stored (trace s') \<longrightarrow>
               status r = 200 \<and>
               (\<exists>d. response_data r = Some d \<and> markdown d = ''No text extracted'') \<and>
               objects s' (the (BUCKET_NAME env), replace_ext (s3_key w f)) =
                 Some (''No text extracted'', ''text/markdown'')) \<and>
            (\<not> markdown_stored (trace s') \<longrightarrow> is_failure r)) \<and>
         (fs_writeFile w (temp_path w f) (buffer f) = None \<and>
          llama_ocr w (temp_path w f) (the (TOGETHER_API_KEY env)) = Inr (JString t) \<and>
          post_api_ocr_tmp w env req (fresh st tmp) = (r, s') \<longrightarrow>
            map fst (sends (trace s')) = [image_put w env f, markdown_put w env f t] \<and>
            (markdown_stored (trace s') \<longrightarrow>
               (\<exists>d. response_data r = Some d \<and> markdown d = t)) \<and>
            (\<not> markdown_stored (trace s') \<longrightarrow> is_failure r))"
proof -
  have none: "or_else (first_content c) ''No text extracted'' = ''No text extracted''"
    if "\<not> truthy (first_content c)"
    using that by (cases "first_content c") auto
  have inline: "map fst (sends (trace s')) =
              [image_put w env f, markdown_put w env f ''No text extracted''] \<and>
            (markdown_stored (trace s') \<longrightarrow>
               status r = 200 \<and>
               (\<exists>d. response_data r = Some d \<and> markdown d = ''No text extracted'') \<and>
               objects s' (the (BUCKET_NAME env), replace_ext (s3_key w f)) =
                 Some (''No text extracted'', ''text/markdown'')) \<and>
            (\<not> markdown_stored (trace s') \<longrightarrow> is_failure r)"
    if c: "together_create w (chat_of f) = Inr c" and e: "\<not> truthy (first_content c)"
      and run: "post_api_ocr w env req (fresh st tmp) = (r, s')"
    using run unfolding post_api_ocr_valid [OF assms(1-3)]
    by (auto simp: assms(4) c none [OF e] catch_block_failure json_data json_status
          markdown_stored_def split: option.splits)
  have staged: "map fst (sends (trace s')) = [image_put w env f, markdown_put w env f t] \<and>
            (markdown_stored (trace s') \<longrightarrow>
               (\<exists>d. response_data r = Some d \<and> markdown d = t)) \<and>
            (\<not> markdown_stored (trace s') \<longrightarrow> is_failure r)"
    if wf: "fs_writeFile w (temp_path w f) (buffer f) = None"
      and o: "llama_ocr w (temp_path w f) (the (TOGETHER_API_KEY env)) = Inr (JString t)"
      and run: "post_api_ocr_tmp w env req (fresh st tmp) = (r, s')"
    using run unfolding post_api_ocr_tmp_valid [OF assms(1-3)]
    by (auto simp: assms(4) wf o catch_block_failure json_data json_status
          markdown_stored_def unlink_quietly_trace split: option.splits)
  from inline staged show ?thesis by blast
qed

theorem placeholder_in_inline_variant_witness:
  "req_file (upload a_png) = Some a_png \<and> truthy (TOGETHER_API_KEY configured) \<and>
   truthy (BUCKET_NAME configured) \<and>
   s3_send empty_text 0 (image_put empty_text configured a_png) = None \<and>
   together_create empty_text (chat_of a_png) = Inr (Completion [Choice (Some (Message (Some [])))]) \<and>
   \<not> truthy (first_content (Completion [Choice (Some (Message (Some [])))])) \<and>
   fs_writeFile empty_text (temp_path empty_text a_png) (buffer a_png) = None \<and>
   llama_ocr empty_text (temp_path empty_text a_png) (the (TOGETHER_API_KEY configured)) =
     Inr (JString []) \<and>
   markdown_stored (trace (snd (post_api_ocr empty_text configured (upload a_png) idle))) \<and>
   markdown_stored (trace (snd (post_api_ocr_tmp empty_text configured (upload a_png) idle))) \<and>
   map fst (sends (trace (snd (post_api_ocr empty_text configured (upload a_png) idle)))) =
     [image_put empty_text configured a_png,
      markdown_put empty_text configured a_png ''No text extracted''] \<and>
   status (fst (post_api_ocr empty_text configured (upload a_png) idle)) = 200 \<and>
   (\<exists>d. response_data (fst (post_api_ocr empty_text configured (upload a_png) idle)) = Some d \<and>
        markdown d = ''No text extracted'') \<and>
   objects (snd (post_api_ocr empty_text configured (upload a_png) idle))
     (the (BUCKET_NAME configured), replace_ext (s3_key empty_text a_png)) =
       Some (''No text extracted'', ''text/markdown'') \<and>
   map fst (sends (trace (snd (post_api_ocr_tmp empty_text configured (upload a_png) idle)))) =
     [image_put empty_text configured a_png, markdown_put empty_text configured a_png []] \<and>
   (\<exists>d. response_data (fst (post_api_ocr_tmp empty_text configured (upload a_png) idle)) = Some d \<and>
        markdown d = []) \<and>
   together_create no_choices_md_fails (chat_of a_png) = Inr (Completion []) \<and>
   \<not> truthy (first_content (Completion [])) \<and>
   \<not> markdown_stored
       (trace (snd (post_api_ocr no_choices_md_fails configured (upload a_png) idle))) \<and>
   map fst (sends (trace (snd (post_api_ocr no_choices_md_fails configured (upload a_png) idle)))) =
     [image_put no_choices_md_fails configured a_png,
      markdown_put no_choices_md_fails configured a_png ''No text extracted''] \<and>
   is_failure (fst (post_api_ocr no_choices_md_fails configured (upload a_png) idle))"
proof -
  have n: "s3_send no_choices_md_fails 0 (image_put no_choices_md_fails configured a_png) = None"
    "together_create no_choices_md_fails (chat_of a_png) = Inr (Completion [])"
    "\<not> truthy (first_content (Completion []))"
    by (simp_all add: no_choices_md_fails_def md_put_fails_def calm_def first_content_def)
  have nr: "post_api_ocr no_choices_md_fails configured (upload a_png)
        (fresh Map.empty Map.empty) =
       (fst (post_api_ocr no_choices_md_fails configured (upload a_png) idle),
        snd (post_api_ocr no_choices_md_fails configured (upload a_png) idle))"
    by (simp add: idle_def)
  have "s3_send no_choices_md_fails 1
          (markdown_put no_choices_md_fails configured a_png ''No text extracted'') \<noteq> None"
    by (simp add: no_choices_md_fails_def md_put_fails_def calm_def)
  then have ns: "\<not> markdown_stored
       (trace (snd (post_api_ocr no_choices_md_fails configured (upload a_png) idle)))"
    unfolding idle_def post_api_ocr_valid [OF sample_valid(1-3)]
    by (auto simp: n first_content_def markdown_stored_def)
  have refused: "map fst
       (sends (trace (snd (post_api_ocr no_choices_md_fails configured (upload a_png) idle)))) =
     [image_put no_choices_md_fails configured a_png,
      markdown_put no_choices_md_fails configured a_png ''No text extracted''] \<and>
   is_failure (fst (post_api_ocr no_choices_md_fails configured (upload a_png) idle))"
    using placeholder_in_inline_variant
         [OF sample_valid(1-3) n(1), where c = "Completion []"
            and st = Map.empty and tmp = Map.empty and t = "[]"
            and r = "fst (post_api_ocr no_choices_md_fails configured (upload a_png) idle)"
            and s' = "snd (post_api_ocr no_choices_md_fails configured (upload a_png) idle)"]
       n(2,3) ns nr
    by blast
  have w: "s3_send empty_text 0 (image_put empty_text configured a_png) = None"
    "together_create empty_text (chat_of a_png) =
       Inr (Completion [Choice (Some (Message (Some [])))])"
    "\<not> truthy (first_content (Completion [Choice (Some (Message (Some [])))]))"
    "fs_writeFile empty_text (temp_path empty_text a_png) (buffer a_png) = None"
    "llama_ocr empty_text (temp_path empty_text a_png) (the (TOGETHER_API_KEY configured)) =
       Inr (JString [])"
    by (simp_all add: empty_text_def calm_def first_content_def)
  have s: "markdown_stored (trace (snd (post_api_ocr empty_text configured (upload a_png) idle)))"
    "markdown_stored (trace (snd (post_api_ocr_tmp empty_text configured (upload a_png) idle)))"
    by (simp_all add: run_empty_text run_empty_text_tmp markdown_stored_def)
  have r: "post_api_ocr empty_text configured (upload a_png) (fresh Map.empty Map.empty) =
       (fst (post_api_ocr empty_text configured (upload a_png) idle),
        snd (post_api_ocr empty_text configured (upload a_png) idle))"
    "post_api_ocr_tmp empty_text configured (upload a_png) (fresh Map.empty Map.empty) =
       (fst (post_api_ocr_tmp empty_text configured (upload a_png) idle),
        snd (post_api_ocr_tmp empty_text configured (upload a_png) idle))"
    by (simp_all add: idle_def)
  have inline: "map fst (sends (trace (snd (post_api_ocr empty_text configured (upload a_png) idle)))) =
     [image_put empty_text configured a_png,
      markdown_put empty_text configured a_png ''No text extracted''] \<and>
   status (fst (post_api_ocr empty_text configured (upload a_png) idle)) = 200 \<and>
   (\<exists>d. response_data (fst (post_api_ocr empty_text configured (upload a_png) idle)) = Some d \<and>
        markdown d = ''No text extracted'') \<and>
   objects (snd (post_api_ocr empty_text configured (upload a_png) idle))
     (the (BUCKET_NAME configured), replace_ext (s3_key empty_text a_png)) =
       Some (''No text extracted'', ''text/markdown'')"
    using placeholder_in_inline_variant
         [OF sample_valid(1-3) w(1), where c = "Completion [Choice (Some (Message (Some [])))]"
            and st = Map.empty and tmp = Map.empty and t = "[]"
            and r = "fst (post_api_ocr empty_text configured (upload a_png) idle)"
            and s' = "snd (post_api_ocr empty_text configured (upload a_png) idle)"]
       w(2,3) s(1) r(1)
    by blast
  have staged: "map fst (sends (trace (snd (post_api_ocr_tmp empty_text configured (upload a_png) idle)))) =
     [image_put empty_text configured a_png, markdown_put empty_text configured a_png []] \<and>
   (\<exists>d. response_data (fst (post_api_ocr_tmp empty_text configured (upload a_png) idle)) = Some d \<and>
        markdown d = [])"
    using placeholder_in_inline_variant
         [OF sample_valid(1-3) w(1), where c = "Completion [Choice (Some (Message (Some [])))]"
            and st = Map.empty and tmp = Map.empty and t = "[]"
            and r = "fst (post_api_ocr_tmp empty_text configured (upload a_png) idle)"
            and s' = "snd (post_api_ocr_tmp empty_text configured (upload a_png) idle)"]
       w(4,5) s(2) r(2)
    by blast
  from inline staged refused n(2,3) ns w s sample_valid(1) [where f = a_png] sample_valid(2,3)
  show ?thesis
    by blast
qed

subsection \<open>The temporary file\<close>

lemma run_unlink_fails_tmp:
  "post_api_ocr_tmp unlink_fails configured (upload a_png) idle =
     (\<lparr>status = 200,
       body = Success ''OCR processing completed successfully''
         \<lparr>inputFile = ''uploads/1700-a.png'', outputFile = ''uploads/1700-a.md'',
          markdown = ''# Title'', bucket = ''bucket'', processingTime = ''2.00s''\<rparr>\<rparr>,
      \<lparr>clock_reads = 3, s3_sends = 2,
       objects = [(''bucket'', ''uploads/1700-a.png'') \<mapsto> (''abc'', ''image/png''),
                  (''bucket'', ''uploads/1700-a.md'') \<mapsto> (''# Title'', ''text/markdown'')],
       files = [''/tmp/1700-a.png'' \<mapsto> ''abc''],
       trace = [DateNow 1700, FsWriteFile ''/tmp/1700-a.png'' ''abc'' True,
                S3Send (image_put unlink_fails configured a_png) True,
                DateNow 5000, LlamaOcr ''/tmp/1700-a.png'' ''key'' True,
                DateNow 7000,
                S3Send (markdown_put unlink_fails configured a_png ''# Title'') True,
                FsUnlink ''/tmp/1700-a.png'' False]\<rparr>)"
  unfolding idle_def post_api_ocr_tmp_valid [OF sample_valid(1-3)] sample_valid
  by (simp add: unlink_fails_def calm_def a_png_def json_def two_seconds unlink_quietly_def
        s3_key_def temp_path_def show_int_1700)

text \<open>
  C4. The claim is that the temp-file variant removes, or tries to remove, the staged
  file on the success path and on every failure path, and that a failed removal never
  changes the response. The code calls \<open>fs.unlink\<close> only after the markdown upload; the
  \<open>catch\<close> block does not. With an inference call that throws, the request ends with
  status 500, the trace holds no \<open>unlink\<close>, and the staged file is still there. On the
  success path the removal is attempted, and when it fails the response is the one of
  the run in which it succeeds.
\<close>

theorem temp_file_left_on_failure:
  "post_api_ocr_tmp rate_limited configured (upload a_png) idle =
     (\<lparr>status = 500, body = Failure ''RateLimited''\<rparr>,
      \<lparr>clock_reads = 2, s3_sends = 1,
       objects = [(''bucket'', ''uploads/1700-a.png'') \<mapsto> (''abc'', ''image/png'')],
       files = [''/tmp/1700-a.png'' \<mapsto> ''abc''],
       trace = [DateNow 1700, FsWriteFile ''/tmp/1700-a.png'' ''abc'' True,
                S3Send (image_put rate_limited configured a_png) True,
                DateNow 5000, LlamaOcr ''/tmp/1700-a.png'' ''key'' False]\<rparr>) \<and>
   files (snd (post_api_ocr_tmp rate_limited configured (upload a_png) idle))
     ''/tmp/1700-a.png'' = Some ''abc'' \<and>
   last (trace (snd (post_api_ocr_tmp calm configured (upload a_png) idle))) =
     FsUnlink ''/tmp/1700-a.png'' True \<and>
   files (snd (post_api_ocr_tmp calm configured (upload a_png) idle)) ''/tmp/1700-a.png'' = None \<and>
   last (trace (snd (post_api_ocr_tmp unlink_fails configured (upload a_png) idle))) =
     FsUnlink ''/tmp/1700-a.png'' False \<and>
   fst (post_api_ocr_tmp unlink_fails configured (upload a_png) idle) =
     fst (post_api_ocr_tmp calm configured (upload a_png) idle)"
  by (simp add: run_rate_limited_tmp run_calm_tmp run_unlink_fails_tmp)

subsection \<open>The two variants side by side\<close>

text \<open>
  C10, as stated: for the same request and the same behaviour of the object store, of
  the clock and of the inference service, both variants answer with the same envelope.
  It fails when the extracted text is the empty string: \<open>src/server.js\<close> answers with the
  markdown \<open>No text extracted\<close>, the temp-file variant with the empty markdown.
\<close>

theorem variants_differ_counterexample:
  "fst (post_api_ocr empty_text configured (upload a_png) idle) \<noteq>
   fst (post_api_ocr_tmp empty_text configured (upload a_png) idle)"
  by (simp add: run_empty_text run_empty_text_tmp)

text \<open>
  C10, amended. For every request, the two variants answer with the same envelope
  (status, success flag, data or error) and leave the same objects in the store,
  provided that, when the request carries a file, staging it in the temporary file
  succeeds and the inference service behaves alike in both: the same error is thrown,
  or the extracted text is the same non-empty string. The object store and the clock
  are the same doubles for both.
\<close>

theorem variants_agree:
  assumes "\<forall>f. req_file req = Some f \<longrightarrow>
             fs_writeFile w (temp_path w f) (buffer f) = None \<and> same_inference w env f"
  shows "fst (post_api_ocr w env req (fresh st tmp)) =
           fst (post_api_ocr_tmp w env req (fresh st tmp)) \<and>
         objects (snd (post_api_ocr w env req (fresh st tmp))) =
           objects (snd (post_api_ocr_tmp w env req (fresh st tmp)))"
proof (cases "validation_passed env req")
  case False
  then show ?thesis
    by (auto simp: validation_passed_def post_api_ocr_def try_block_def
          post_api_ocr_tmp_def try_block_tmp_def split: option.splits)
next
  case True
  then obtain f where f: "req_file req = Some f"
      and k: "truthy (TOGETHER_API_KEY env)" and b: "truthy (BUCKET_NAME env)"
    by (auto simp: validation_passed_def)
  from assms f have wf: "fs_writeFile w (temp_path w f) (buffer f) = None"
    and same: "same_inference w env f" by auto
  show ?thesis
  proof (cases "together_create w (chat_of f)")
    case (Inl e)
    with same have "llama_ocr w (temp_path w f) (the (TOGETHER_API_KEY env)) = Inl e"
      by (simp add: same_inference_def)
    with Inl wf show ?thesis
      unfolding post_api_ocr_valid [OF f k b] post_api_ocr_tmp_valid [OF f k b]
      by (simp split: option.splits)
  next
    case (Inr c)
    with same obtain t where t: "first_content c = Some t" "t \<noteq> []"
        "llama_ocr w (temp_path w f) (the (TOGETHER_API_KEY env)) = Inr (JString t)"
      by (auto simp: same_inference_def split: option.splits)
    with Inr wf show ?thesis
      unfolding post_api_ocr_valid [OF f k b] post_api_ocr_tmp_valid [OF f k b]
      by (simp add: unlink_quietly_objects split: option.splits)
  qed
qed

theorem variants_agree_witness:
  "req_file (upload a_png) = Some a_png \<and>
   fs_writeFile calm (temp_path calm a_png) (buffer a_png) = None \<and>
   same_inference calm configured a_png \<and>
   fst (post_api_ocr calm configured (upload a_png) idle) =
     fst (post_api_ocr_tmp calm configured (upload a_png) idle) \<and>
   objects (snd (post_api_ocr calm configured (upload a_png) idle)) =
     objects (snd (post_api_ocr_tmp calm configured (upload a_png) idle))"
proof -
  have same: "same_inference calm configured f" for f
    by (simp add: same_inference_def calm_def first_content_def)
  have wf: "fs_writeFile calm (temp_path calm f) (buffer f) = None" for f
    by (simp add: calm_def)
  have h: "\<forall>f. req_file (upload a_png) = Some f \<longrightarrow>
        fs_writeFile calm (temp_path calm f) (buffer f) = None \<and>
        same_inference calm configured f"
    using same wf by simp
  from variants_agree [OF h, where st = Map.empty and tmp = Map.empty] wf same
  show ?thesis by (simp add: idle_def [symmetric] upload_def)
qed

subsection \<open>The order of the stages\<close>

lemma inline_markdown_returned:
  "together_create w (chat_of f) = Inr c \<Longrightarrow>
   inline_markdown w f = or_else (first_content c) ''No text extracted''"
  by (simp add: inline_markdown_def)

lemma staged_markdown_returned:
  "llama_ocr w (temp_path w f) (the (TOGETHER_API_KEY env)) = Inr v \<Longrightarrow>
   length_of v = Inr t \<Longrightarrow> staged_markdown w env f = t"
  by (cases v) (simp_all add: staged_markdown_def)

text \<open>
  C8. In both variants every request goes forward through validation, the image upload,
  the inference call and the markdown upload, and stops at the first failure. When
  validation fails no call is made at all and the response is a failure envelope. When it
  passes, the calls to the object store and to the inference service, read with their
  arguments, are an initial segment of: the put of the uploaded bytes under the image
  key, the inference call for that image, the put of the extracted markdown under the
  markdown key. So the inference is invoked only after the image put, the markdown is
  put only after the inference, no call is repeated and nothing is sent twice. Every
  call but the last one resolved, so a call that throws is the last one; then the
  response is a failure envelope with status 500. The response is a success envelope
  exactly when all three calls were made and resolved. In \<open>src/server.js\<close> a request that
  passes validation always issues the image put. The temp-file variant stages the file
  before the image upload and removes it after the markdown upload; these are not calls
  of the pipeline.
\<close>

theorem forward_only_pipeline:
  "(post_api_ocr w env req (fresh st tmp) = (r, s') \<longrightarrow>
      (\<not> validation_passed env req \<longrightarrow> trace s' = [] \<and> is_failure r) \<and>
      (\<forall>f. req_file req = Some f \<and> validation_passed env req \<longrightarrow>
         pipeline (trace s') \<noteq> [] \<and>
         initial_segment (map resolve (pipeline (trace s'))) (inline_pipeline w env f) \<and>
         (\<not> is_failure r \<longleftrightarrow> pipeline (trace s') = inline_pipeline w env f)) \<and>
      list_all resolved (butlast (pipeline (trace s'))) \<and>
      (pipeline (trace s') \<noteq> [] \<and> \<not> resolved (last (pipeline (trace s'))) \<longrightarrow>
         is_failure r \<and> status r = 500)) \<and>
   (post_api_ocr_tmp w env req (fresh st tmp) = (r, s') \<longrightarrow>
      (\<not> validation_passed env req \<longrightarrow> trace s' = [] \<and> is_failure r) \<and>
      (\<forall>f. req_file req = Some f \<and> validation_passed env req \<longrightarrow>
         initial_segment (map resolve (pipeline (trace s'))) (staged_pipeline w env f) \<and>
         (\<not> is_failure r \<longleftrightarrow> pipeline (trace s') = staged_pipeline w env f)) \<and>
      list_all resolved (butlast (pipeline (trace s'))) \<and>
      (pipeline (trace s') \<noteq> [] \<and> \<not> resolved (last (pipeline (trace s'))) \<longrightarrow>
         is_failure r \<and> status r = 500))"
proof (cases "validation_passed env req")
  case False
  then have "snd (post_api_ocr w env req (fresh st tmp)) = fresh st tmp"
    "snd (post_api_ocr_tmp w env req (fresh st tmp)) = fresh st tmp"
    "is_failure (fst (post_api_ocr w env req (fresh st tmp)))"
    "is_failure (fst (post_api_ocr_tmp w env req (fresh st tmp)))"
    by (simp_all add: post_api_ocr_invalid post_api_ocr_tmp_invalid)
  then have "post_api_ocr w env req (fresh st tmp) = (r, s') \<longrightarrow> trace s' = [] \<and> is_failure r"
    "post_api_ocr_tmp w env req (fresh st tmp) = (r, s') \<longrightarrow> trace s' = [] \<and> is_failure r"
    by (auto simp: fresh_def)
  with False show ?thesis by auto
next
  case True
  then obtain f where f: "req_file req = Some f"
      and k: "truthy (TOGETHER_API_KEY env)" and b: "truthy (BUCKET_NAME env)"
    by (auto simp: validation_passed_def)
  have inline: "post_api_ocr w env req (fresh st tmp) = (r, s') \<longrightarrow>
      pipeline (trace s') \<noteq> [] \<and>
      initial_segment (map resolve (pipeline (trace s'))) (inline_pipeline w env f) \<and>
      (\<not> is_failure r \<longleftrightarrow> pipeline (trace s') = inline_pipeline w env f) \<and>
      list_all resolved (butlast (pipeline (trace s'))) \<and>
      (pipeline (trace s') \<noteq> [] \<and> \<not> resolved (last (pipeline (trace s'))) \<longrightarrow>
         is_failure r \<and> status r = 500)"
    unfolding post_api_ocr_valid [OF f k b] inline_pipeline_def
    by (auto simp: catch_block_failure json_status inline_markdown_returned
          split: option.splits sum.splits)
  have staged: "post_api_ocr_tmp w env req (fresh st tmp) = (r, s') \<longrightarrow>
      initial_segment (map resolve (pipeline (trace s'))) (staged_pipeline w env f) \<and>
      (\<not> is_failure r \<longleftrightarrow> pipeline (trace s') = staged_pipeline w env f) \<and>
      list_all resolved (butlast (pipeline (trace s'))) \<and>
      (pipeline (trace s') \<noteq> [] \<and> \<not> resolved (last (pipeline (trace s'))) \<longrightarrow>
         is_failure r \<and> status r = 500)"
    unfolding post_api_ocr_tmp_valid [OF f k b] staged_pipeline_def
    by (auto simp: catch_block_failure json_status staged_markdown_returned
          unlink_quietly_trace split: option.splits sum.splits)
  from inline staged True f show ?thesis by auto
qed

theorem forward_only_pipeline_witness:
  "\<not> validation_passed configured \<lparr>req_file = None\<rparr> \<and>
   trace (snd (post_api_ocr calm configured \<lparr>req_file = None\<rparr> idle)) = [] \<and>
   is_failure (fst (post_api_ocr calm configured \<lparr>req_file = None\<rparr> idle)) \<and>
   trace (snd (post_api_ocr_tmp calm configured \<lparr>req_file = None\<rparr> idle)) = [] \<and>
   req_file (upload a_png) = Some a_png \<and>
   validation_passed configured (upload a_png) \<and>
   \<not> is_failure (fst (post_api_ocr calm configured (upload a_png) idle)) \<and>
   pipeline (trace (snd (post_api_ocr calm configured (upload a_png) idle))) =
     inline_pipeline calm configured a_png \<and>
   \<not> is_failure (fst (post_api_ocr_tmp calm configured (upload a_png) idle)) \<and>
   pipeline (trace (snd (post_api_ocr_tmp calm configured (upload a_png) idle))) =
     staged_pipeline calm configured a_png \<and>
   pipeline (trace (snd (post_api_ocr rate_limited configured (upload a_png) idle))) \<noteq> [] \<and>
   \<not> resolved (last (pipeline (trace (snd (post_api_ocr rate_limited configured (upload a_png) idle))))) \<and>
   initial_segment
     (map resolve (pipeline (trace (snd (post_api_ocr rate_limited configured (upload a_png) idle)))))
     (inline_pipeline rate_limited configured a_png) \<and>
   is_failure (fst (post_api_ocr rate_limited configured (upload a_png) idle)) \<and>
   status (fst (post_api_ocr rate_limited configured (upload a_png) idle)) = 500 \<and>
   pipeline (trace (snd (post_api_ocr_tmp rate_limited configured (upload a_png) idle))) \<noteq> [] \<and>
   \<not> resolved (last (pipeline (trace (snd (post_api_ocr_tmp rate_limited configured (upload a_png) idle))))) \<and>
   initial_segment
     (map resolve (pipeline (trace (snd (post_api_ocr_tmp rate_limited configured (upload a_png) idle)))))
     (staged_pipeline rate_limited configured a_png) \<and>
   is_failure (fst (post_api_ocr_tmp rate_limited configured (upload a_png) idle)) \<and>
   status (fst (post_api_ocr_tmp rate_limited configured (upload a_png) idle)) = 500"
proof -
  have invalid: "\<not> validation_passed configured \<lparr>req_file = None\<rparr>"
    by (simp add: validation_passed_def)
  have valid: "req_file (upload a_png) = Some a_png" "validation_passed configured (upload a_png)"
    by (simp_all add: validation_passed_def sample_valid)
  have ok: "\<not> is_failure (fst (post_api_ocr calm configured (upload a_png) idle))"
    "\<not> is_failure (fst (post_api_ocr_tmp calm configured (upload a_png) idle))"
    by (simp_all add: run_calm run_calm_tmp is_failure_def)
  have thrown:
    "pipeline (trace (snd (post_api_ocr rate_limited configured (upload a_png) idle))) \<noteq> []"
    "\<not> resolved (last (pipeline (trace (snd (post_api_ocr rate_limited configured (upload a_png) idle)))))"
    "pipeline (trace (snd (post_api_ocr_tmp rate_limited configured (upload a_png) idle))) \<noteq> []"
    "\<not> resolved (last (pipeline (trace (snd (post_api_ocr_tmp rate_limited configured (upload a_png) idle)))))"
    by (simp_all add: run_rate_limited run_rate_limited_tmp)
  have run: "post_api_ocr w configured q (fresh Map.empty Map.empty) =
      (fst (post_api_ocr w configured q idle), snd (post_api_ocr w configured q idle))"
    "post_api_ocr_tmp w configured q (fresh Map.empty Map.empty) =
      (fst (post_api_ocr_tmp w configured q idle), snd (post_api_ocr_tmp w configured q idle))"
    for w q
    by (simp_all add: idle_def)
  have a: "trace (snd (post_api_ocr calm configured \<lparr>req_file = None\<rparr> idle)) = [] \<and>
   is_failure (fst (post_api_ocr calm configured \<lparr>req_file = None\<rparr> idle))"
    using forward_only_pipeline
      [where w = calm and env = configured and req = "\<lparr>req_file = None\<rparr>"
         and st = Map.empty and tmp = Map.empty
         and r = "fst (post_api_ocr calm configured \<lparr>req_file = None\<rparr> idle)"
         and s' = "snd (post_api_ocr calm configured \<lparr>req_file = None\<rparr> idle)"]
      run invalid by simp
  have a': "trace (snd (post_api_ocr_tmp calm configured \<lparr>req_file = None\<rparr> idle)) = []"
    using forward_only_pipeline
      [where w = calm and env = configured and req = "\<lparr>req_file = None\<rparr>"
         and st = Map.empty and tmp = Map.empty
         and r = "fst (post_api_ocr_tmp calm configured \<lparr>req_file = None\<rparr> idle)"
         and s' = "snd (post_api_ocr_tmp calm configured \<lparr>req_file = None\<rparr> idle)"]
      run invalid by simp
  have b: "pipeline (trace (snd (post_api_ocr calm configured (upload a_png) idle))) =
     inline_pipeline calm configured a_png"
    using forward_only_pipeline
      [where w = calm and env = configured and req = "upload a_png"
         and st = Map.empty and tmp = Map.empty
         and r = "fst (post_api_ocr calm configured (upload a_png) idle)"
         and s' = "snd (post_api_ocr calm configured (upload a_png) idle)"]
      run valid ok by simp
  have b': "pipeline (trace (snd (post_api_ocr_tmp calm configured (upload a_png) idle))) =
     staged_pipeline calm configured a_png"
    using forward_only_pipeline
      [where w = calm and env = configured and req = "upload a_png"
         and st = Map.empty and tmp = Map.empty
         and r = "fst (post_api_ocr_tmp calm configured (upload a_png) idle)"
         and s' = "snd (post_api_ocr_tmp calm configured (upload a_png) idle)"]
      run valid ok by simp
  have c: "initial_segment
     (map resolve (pipeline (trace (snd (post_api_ocr rate_limited configured (upload a_png) idle)))))
     (inline_pipeline rate_limited configured a_png) \<and>
   is_failure (fst (post_api_ocr rate_limited configured (upload a_png) idle)) \<and>
   status (fst (post_api_ocr rate_limited configured (upload a_png) idle)) = 500"
    using forward_only_pipeline
      [where w = rate_limited and env = configured and req = "upload a_png"
         and st = Map.empty and tmp = Map.empty
         and r = "fst (post_api_ocr rate_limited configured (upload a_png) idle)"
         and s' = "snd (post_api_ocr rate_limited configured (upload a_png) idle)"]
      run valid thrown by simp
  have c': "initial_segment
     (map resolve (pipeline (trace (snd (post_api_ocr_tmp rate_limited configured (upload a_png) idle)))))
     (staged_pipeline rate_limited configured a_png) \<and>
   is_failure (fst (post_api_ocr_tmp rate_limited configured (upload a_png) idle)) \<and>
   status (fst (post_api_ocr_tmp rate_limited configured (upload a_png) idle)) = 500"
    using forward_only_pipeline
      [where w = rate_limited and env = configured and req = "upload a_png"
         and st = Map.empty and tmp = Map.empty
         and r = "fst (post_api_ocr_tmp rate_limited configured (upload a_png) idle)"
         and s' = "snd (post_api_ocr_tmp rate_limited configured (upload a_png) idle)"]
      run valid thrown by simp
  from invalid valid ok thrown a a' b b' c c'
  show ?thesis by simp
qed

subsection \<open>The processing time\<close>

lemma run_epoch_clock:
  "post_api_ocr epoch_clock configured (upload a_png) idle =
     (\<lparr>status = 200,
       body = Success ''OCR processing completed successfully''
         \<lparr>inputFile = ''uploads/1700-a.png'', outputFile = ''uploads/1700-a.md'',
          markdown = ''# Title'', bucket = ''bucket'', processingTime = ''2.00s''\<rparr>\<rparr>,
      \<lparr>clock_reads = 3, s3_sends = 2,
       objects = [(''bucket'', ''uploads/1700-a.png'') \<mapsto> (''abc'', ''image/png''),
                  (''bucket'', ''uploads/1700-a.md'') \<mapsto> (''# Title'', ''text/markdown'')],
       files = Map.empty,
       trace = [DateNow 1700, S3Send (image_put epoch_clock configured a_png) True,
                DateNow 0, TogetherCreate (chat_of a_png) True,
                DateNow 2000,
                S3Send (markdown_put epoch_clock configured a_png ''# Title'') True]\<rparr>)"
  unfolding idle_def post_api_ocr_valid [OF sample_valid(1-3)] sample_valid
  by (simp add: epoch_clock_def calm_def a_png_def json_def first_content_def two_seconds
        s3_key_def show_int_1700)

lemma toFixed2_div1000_digits:
  "toFixed2_div1000 ms =
     (if ms < 0 then ''-'' else []) @
     digits (hundredths (nat \<bar>ms\<bar>) div 100) @ ''.'' @
     [digit_char (hundredths (nat \<bar>ms\<bar>) div 10 mod 10),
      digit_char (hundredths (nat \<bar>ms\<bar>) mod 10)]"
  by (simp add: toFixed2_div1000_def fixed2_digits)

lemma minus_two_seconds: "toFixed2_div1000 (- 2000) = ''-2.00''"
  by (simp add: toFixed2_div1000_def hundredths_def double_scale_def double_mantissa_def
      round_half_even_def fixed2_def Let_def upt_rec digits_small digits_large digit_char_simps)

lemma run_clock_back:
  "post_api_ocr clock_back configured (upload a_png) idle =
     (\<lparr>status = 200,
       body = Success ''OCR processing completed successfully''
         \<lparr>inputFile = ''uploads/1700-a.png'', outputFile = ''uploads/1700-a.md'',
          markdown = ''# Title'', bucket = ''bucket'', processingTime = ''-2.00s''\<rparr>\<rparr>,
      \<lparr>clock_reads = 3, s3_sends = 2,
       objects = [(''bucket'', ''uploads/1700-a.png'') \<mapsto> (''abc'', ''image/png''),
                  (''bucket'', ''uploads/1700-a.md'') \<mapsto> (''# Title'', ''text/markdown'')],
       files = Map.empty,
       trace = [DateNow 1700, S3Send (image_put clock_back configured a_png) True,
                DateNow 5000, TogetherCreate (chat_of a_png) True,
                DateNow 3000,
                S3Send (markdown_put clock_back configured a_png ''# Title'') True]\<rparr>)"
  unfolding idle_def post_api_ocr_valid [OF sample_valid(1-3)] sample_valid
  by (simp add: clock_back_def calm_def a_png_def json_def first_content_def minus_two_seconds
        s3_key_def show_int_1700)

text \<open>
  C7, as stated: for every successful request the reported processing time is
  non-negative. The code subtracts the two readings of \<open>Date.now()\<close> and formats the
  quotient as it is, with no clamp. With a clock that reads 5000 just before the
  inference call and 3000 just after it, the request succeeds with status 200 and the
  processing time \<open>-2.00s\<close>.
\<close>

theorem processing_time_negative_counterexample:
  "fst (post_api_ocr clock_back configured (upload a_png) idle) =
     \<lparr>status = 200,
      body = Success ''OCR processing completed successfully''
        \<lparr>inputFile = ''uploads/1700-a.png'', outputFile = ''uploads/1700-a.md'',
         markdown = ''# Title'', bucket = ''bucket'', processingTime = ''-2.00s''\<rparr>\<rparr> \<and>
   now clock_back 1 = 5000 \<and> now clock_back 2 = 3000"
  by (simp add: run_clock_back) (simp add: clock_back_def calm_def)

text \<open>
  C7, amended. For every request to \<open>src/server.js\<close> answered with a success envelope, the
  clock is read immediately before and immediately after the inference call, and the
  reported processing time is the difference of the two readings in milliseconds,
  divided by 1000 and rounded to hundredths as \<open>toFixed(2)\<close> rounds the double: a minus
  sign exactly when the second reading is smaller than the first, then the integer part
  of the magnitude, a point, exactly two digits and the suffix \<open>s\<close>. So the time is
  non-negative for every clock that does not run backwards between the two readings,
  and only for those up to rounding. For readings less than \<open>2 ^ 53\<close> milliseconds apart
  the magnitude is the elapsed time in hundredths of a second rounded to a nearest
  integer, and it is monotonic: a longer elapsed time never gives a smaller magnitude.
  With the readings 0 and 2000 the string is \<open>2.00s\<close>.
\<close>

theorem processing_time_two_decimals:
  assumes "post_api_ocr w env req (fresh st tmp) = (r, s')" "response_data r = Some d"
    and "req_file req = Some f"
    and "\<bar>now w 2 - now w 1\<bar> < 2 ^ 53"
    and "e = nat \<bar>now w 2 - now w 1\<bar>" "h = hundredths e"
  shows "trace s' =
           [DateNow (now w 0), S3Send (image_put w env f) True,
            DateNow (now w 1), TogetherCreate (chat_of f) True, DateNow (now w 2),
            S3Send (markdown_put w env f (markdown d)) True] \<and>
         processingTime d =
           (if now w 2 < now w 1 then ''-'' else []) @
           digits (h div 100) @ ''.'' @ [digit_char (h div 10 mod 10), digit_char (h mod 10)]
             @ ''s'' \<and>
         e div 10 \<le> h \<and> h \<le> e div 10 + 1 \<and>
         (e mod 10 < 5 \<longrightarrow> h = e div 10) \<and> (5 < e mod 10 \<longrightarrow> h = e div 10 + 1) \<and>
         (\<forall>e'. e \<le> e' \<and> e' < 2 ^ 53 \<longrightarrow> h \<le> hundredths e') \<and>
         (now w 1 = 0 \<and> now w 2 = 2000 \<longrightarrow> processingTime d = ''2.00s'')"
proof -
  from assms(1,2) have "validation_passed env req" by (rule success_is_valid)
  then have k: "truthy (TOGETHER_API_KEY env)" and b: "truthy (BUCKET_NAME env)"
    by (auto simp: validation_passed_def)
  from assms(4,5) have e: "e < 2 ^ 53"
    by (simp add: nat_less_iff)
  from assms(1,2) have time: "processingTime d = toFixed2_div1000 (now w 2 - now w 1) @ ''s''"
    and tr: "trace s' =
        [DateNow (now w 0), S3Send (image_put w env f) True,
         DateNow (now w 1), TogetherCreate (chat_of f) True, DateNow (now w 2),
         S3Send (markdown_put w env f (markdown d)) True]"
    unfolding post_api_ocr_valid [OF assms(3) k b]
    by (auto simp: catch_block_data json_data split: option.splits sum.splits)
  have sign: "(now w 2 - now w 1 < 0) = (now w 2 < now w 1)" by simp
  from time have digits: "processingTime d =
      (if now w 2 < now w 1 then ''-'' else []) @
      digits (h div 100) @ ''.'' @ [digit_char (h div 10 mod 10), digit_char (h mod 10)] @ ''s''"
    unfolding toFixed2_div1000_digits sign assms(5) [symmetric] assms(6) [symmetric]
    by simp
  have bounds: "e div 10 \<le> h \<and> h \<le> e div 10 + 1 \<and>
      (e mod 10 < 5 \<longrightarrow> h = e div 10) \<and> (5 < e mod 10 \<longrightarrow> h = e div 10 + 1)"
    unfolding assms(6) using e by (rule hundredths_bounds)
  have mono: "\<forall>e'. e \<le> e' \<and> e' < 2 ^ 53 \<longrightarrow> h \<le> hundredths e'"
    unfolding assms(6) by (auto intro: hundredths_mono)
  have example: "now w 1 = 0 \<and> now w 2 = 2000 \<longrightarrow> processingTime d = ''2.00s''"
    using time by (auto simp: two_seconds)
  from tr digits bounds mono example show ?thesis by (intro conjI) simp_all
qed

lemma hundredths_2000: "hundredths 2000 = 200"
  by (simp add: hundredths_def double_scale_def double_mantissa_def round_half_even_def
        Let_def upt_rec)

theorem processing_time_two_decimals_witness:
  "response_data (fst (post_api_ocr epoch_clock configured (upload a_png) idle)) =
     Some \<lparr>inputFile = ''uploads/1700-a.png'', outputFile = ''uploads/1700-a.md'',
           markdown = ''# Title'', bucket = ''bucket'', processingTime = ''2.00s''\<rparr> \<and>
   req_file (upload a_png) = Some a_png \<and>
   now epoch_clock 1 = 0 \<and> now epoch_clock 2 = 2000 \<and>
   \<bar>now epoch_clock 2 - now epoch_clock 1\<bar> < 2 ^ 53 \<and>
   (2000::nat) = nat \<bar>now epoch_clock 2 - now epoch_clock 1\<bar> \<and>
   (200::nat) = hundredths 2000 \<and>
   trace (snd (post_api_ocr epoch_clock configured (upload a_png) idle)) =
     [DateNow (now epoch_clock 0), S3Send (image_put epoch_clock configured a_png) True,
      DateNow (now epoch_clock 1), TogetherCreate (chat_of a_png) True,
      DateNow (now epoch_clock 2),
      S3Send (markdown_put epoch_clock configured a_png ''# Title'') True] \<and>
   200 \<le> hundredths 3000 \<and>
   response_data (fst (post_api_ocr clock_back configured (upload a_png) idle)) =
     Some \<lparr>inputFile = ''uploads/1700-a.png'', outputFile = ''uploads/1700-a.md'',
           markdown = ''# Title'', bucket = ''bucket'', processingTime = ''-2.00s''\<rparr> \<and>
   now clock_back 2 < now clock_back 1 \<and>
   \<bar>now clock_back 2 - now clock_back 1\<bar> < 2 ^ 53 \<and>
   (2000::nat) = nat \<bar>now clock_back 2 - now clock_back 1\<bar> \<and>
   ''-2.00s'' =
     ''-'' @ digits (200 div 100) @ ''.'' @
       [digit_char (200 div 10 mod 10), digit_char (200 mod 10)] @ ''s''"
proof -
  have data: "response_data (fst (post_api_ocr epoch_clock configured (upload a_png) idle)) =
     Some \<lparr>inputFile = ''uploads/1700-a.png'', outputFile = ''uploads/1700-a.md'',
           markdown = ''# Title'', bucket = ''bucket'', processingTime = ''2.00s''\<rparr>"
    by (simp add: run_epoch_clock response_data_def)
  have run: "post_api_ocr w configured (upload a_png) (fresh Map.empty Map.empty) =
     (fst (post_api_ocr w configured (upload a_png) idle),
      snd (post_api_ocr w configured (upload a_png) idle))" for w
    by (simp add: idle_def)
  have clock: "now epoch_clock 1 = 0" "now epoch_clock 2 = 2000"
    "\<bar>now epoch_clock 2 - now epoch_clock 1\<bar> < 2 ^ 53"
    "(2000::nat) = nat \<bar>now epoch_clock 2 - now epoch_clock 1\<bar>"
    by (simp_all add: epoch_clock_def calm_def)
  have h: "(200::nat) = hundredths 2000" by (simp add: hundredths_2000)
  have back_data:
    "response_data (fst (post_api_ocr clock_back configured (upload a_png) idle)) =
     Some \<lparr>inputFile = ''uploads/1700-a.png'', outputFile = ''uploads/1700-a.md'',
           markdown = ''# Title'', bucket = ''bucket'', processingTime = ''-2.00s''\<rparr>"
    by (simp add: run_clock_back response_data_def)
  have rclock: "now clock_back 2 < now clock_back 1"
    "\<bar>now clock_back 2 - now clock_back 1\<bar> < 2 ^ 53"
    "(2000::nat) = nat \<bar>now clock_back 2 - now clock_back 1\<bar>"
    by (simp_all add: clock_back_def calm_def)
  have fwd: "trace (snd (post_api_ocr epoch_clock configured (upload a_png) idle)) =
     [DateNow (now epoch_clock 0), S3Send (image_put epoch_clock configured a_png) True,
      DateNow (now epoch_clock 1), TogetherCreate (chat_of a_png) True,
      DateNow (now epoch_clock 2),
      S3Send (markdown_put epoch_clock configured a_png ''# Title'') True] \<and>
   200 \<le> hundredths 3000"
    using processing_time_two_decimals [OF run data sample_valid(1) clock(3,4) h] by simp
  have bwd: "''-2.00s'' =
     ''-'' @ digits (200 div 100) @ ''.'' @
       [digit_char (200 div 10 mod 10), digit_char (200 mod 10)] @ ''s''"
    using processing_time_two_decimals [OF run back_data sample_valid(1) rclock(2,3) h] rclock(1)
    by simp
  from data sample_valid(1) [where f = a_png] clock h fwd back_data rclock bwd
  show ?thesis by (intro conjI) (simp_all only: simp_thms)
qed

end
